theory Spec2Isabelle
  imports Main "HOL-Library.Multiset" "HOL-Library.Finite_Map" "HOL-Library.Product_Lexorder"
begin

unbundle bit_operations_syntax

chapter \<open>VeilMail webhook ingester: signature verifier, storage adapters, request router\<close>

section \<open>Definitions\<close>

subsection \<open>HMAC-SHA-256 (\<^verbatim>\<open>createHmac('sha256', secret).update(payload, 'utf8').digest()\<close>)\<close>

text \<open>
  The verifier calls \<^verbatim>\<open>node:crypto\<close>. Its HMAC is written out here after FIPS 180-4 and
  RFC 2104. Bytes and 32-bit words are integers; every 32-bit addition is reduced with
  \<open>take_bit 32\<close>. A JavaScript string is represented by its UTF-8 bytes, one \<open>char\<close> each.
\<close>

type_synonym byte = int
type_synonym u32 = int

definition add32 :: "u32 \<Rightarrow> u32 \<Rightarrow> u32" where
  "add32 x y = take_bit 32 (x + y)"

definition rotr :: "nat \<Rightarrow> u32 \<Rightarrow> u32" where
  "rotr n x = drop_bit n x OR take_bit 32 (push_bit (32 - n) x)"

definition Ch :: "u32 \<Rightarrow> u32 \<Rightarrow> u32 \<Rightarrow> u32" where
  "Ch x y z = (x AND y) XOR ((4294967295 - x) AND z)"

definition Maj :: "u32 \<Rightarrow> u32 \<Rightarrow> u32 \<Rightarrow> u32" where
  "Maj x y z = (x AND y) XOR (x AND z) XOR (y AND z)"

definition Sigma0 :: "u32 \<Rightarrow> u32" where
  "Sigma0 x = rotr 2 x XOR rotr 13 x XOR rotr 22 x"

definition Sigma1 :: "u32 \<Rightarrow> u32" where
  "Sigma1 x = rotr 6 x XOR rotr 11 x XOR rotr 25 x"

definition sigma0 :: "u32 \<Rightarrow> u32" where
  "sigma0 x = rotr 7 x XOR rotr 18 x XOR drop_bit 3 x"

definition sigma1 :: "u32 \<Rightarrow> u32" where
  "sigma1 x = rotr 17 x XOR rotr 19 x XOR drop_bit 10 x"

text \<open>The round constants and the initial hash value of FIPS 180-4, in decimal.\<close>

definition K256 :: "u32 list" where
  "K256 = [
     1116352408, 1899447441, 3049323471, 3921009573, 961987163, 1508970993,
     2453635748, 2870763221, 3624381080, 310598401, 607225278, 1426881987,
     1925078388, 2162078206, 2614888103, 3248222580, 3835390401, 4022224774,
     264347078, 604807628, 770255983, 1249150122, 1555081692, 1996064986,
     2554220882, 2821834349, 2952996808, 3210313671, 3336571891, 3584528711,
     113926993, 338241895, 666307205, 773529912, 1294757372, 1396182291,
     1695183700, 1986661051, 2177026350, 2456956037, 2730485921, 2820302411,
     3259730800, 3345764771, 3516065817, 3600352804, 4094571909, 275423344,
     430227734, 506948616, 659060556, 883997877, 958139571, 1322822218,
     1537002063, 1747873779, 1955562222, 2024104815, 2227730452, 2361852424,
     2428436474, 2756734187, 3204031479, 3329325298]"

definition H256 :: "u32 list" where
  "H256 = [
     1779033703, 3144134277, 1013904242, 2773480762, 1359893119, 2600822924,
     528734635, 1541459225]"

fun be_words :: "byte list \<Rightarrow> u32 list" where
  "be_words (a # b # c # d # rest) =
     (push_bit 24 a + push_bit 16 b + push_bit 8 c + d) # be_words rest"
| "be_words _ = []"

definition be_bytes :: "u32 \<Rightarrow> byte list" where
  "be_bytes w = [take_bit 8 (drop_bit 24 w), take_bit 8 (drop_bit 16 w),
                 take_bit 8 (drop_bit 8 w), take_bit 8 w]"

definition be64 :: "int \<Rightarrow> byte list" where
  "be64 n = map (\<lambda>i. take_bit 8 (drop_bit (8 * (7 - i)) n)) [0..<8]"

definition pad :: "byte list \<Rightarrow> byte list" where
  "pad m = m @ [0x80] @ replicate ((119 - length m mod 64) mod 64) 0 @ be64 (8 * int (length m))"

text \<open>The message schedule, newest word first: 48 words are added to the 16 of the block.\<close>

fun schedule :: "nat \<Rightarrow> u32 list \<Rightarrow> u32 list" where
  "schedule 0 ws = ws"
| "schedule (Suc n) ws =
     schedule n (add32 (add32 (sigma1 (ws ! 1)) (ws ! 6)) (add32 (sigma0 (ws ! 14)) (ws ! 15)) # ws)"

definition round_step :: "u32 list \<Rightarrow> u32 \<times> u32 \<Rightarrow> u32 list" where
  "round_step st kw =
     (let a = st ! 0; b = st ! 1; c = st ! 2; d = st ! 3;
          e = st ! 4; f = st ! 5; g = st ! 6; h = st ! 7;
          t1 = take_bit 32 (h + Sigma1 e + Ch e f g + fst kw + snd kw);
          t2 = add32 (Sigma0 a) (Maj a b c)
      in [add32 t1 t2, a, b, c, add32 d t1, e, f, g])"

definition compress :: "u32 list \<Rightarrow> byte list \<Rightarrow> u32 list" where
  "compress hs block =
     (let ws = rev (schedule 48 (rev (be_words block)))
      in map2 add32 hs (foldl round_step hs (zip K256 ws)))"

fun blocks :: "nat \<Rightarrow> byte list \<Rightarrow> byte list list" where
  "blocks 0 bs = []"
| "blocks (Suc n) bs = take 64 bs # blocks n (drop 64 bs)"

definition sha256 :: "byte list \<Rightarrow> byte list" where
  "sha256 m = (let p = pad m in
     concat (map be_bytes (foldl compress H256 (blocks (length p div 64) p))))"

definition hmac_sha256 :: "byte list \<Rightarrow> byte list \<Rightarrow> byte list" where
  "hmac_sha256 key msg =
     (let k0 = (if length key > 64 then sha256 key else key);
          k = k0 @ replicate (64 - length k0) 0
      in sha256 (map (\<lambda>b. b XOR 0x5c) k @ sha256 (map (\<lambda>b. b XOR 0x36) k @ msg)))"

definition utf8 :: "string \<Rightarrow> byte list" where
  "utf8 s = map of_char s"

subsection \<open>Hex encoding and \<^verbatim>\<open>Buffer.from(s, 'hex')\<close>\<close>

definition hexdigit :: "int \<Rightarrow> char" where
  "hexdigit n = ''0123456789abcdef'' ! nat n"

text \<open>\<^verbatim>\<open>digest('hex')\<close>: two lower-case digits for each byte.\<close>

definition digest_hex :: "byte list \<Rightarrow> string" where
  "digest_hex bs = concat (map (\<lambda>b. [hexdigit (b div 16), hexdigit (b mod 16)]) bs)"

definition unhex :: "char \<Rightarrow> int option" where
  "unhex c =
     (let n = (of_char c :: int)
      in if 48 \<le> n \<and> n \<le> 57 then Some (n - 48)
         else if 97 \<le> n \<and> n \<le> 102 then Some (n - 87)
         else if 65 \<le> n \<and> n \<le> 70 then Some (n - 55)
         else None)"

text \<open>
  \<^verbatim>\<open>Buffer.from(s, 'hex')\<close> never raises: it decodes pairs of hex digits, of either
  case, and stops at the first pair that holds another character; a single last
  character is dropped.
\<close>

fun Buffer_from_hex :: "string \<Rightarrow> byte list" where
  "Buffer_from_hex (a # b # cs) =
     (case unhex a of
        None \<Rightarrow> []
      | Some x \<Rightarrow> (case unhex b of
                     None \<Rightarrow> []
                   | Some y \<Rightarrow> (16 * x + y) # Buffer_from_hex cs))"
| "Buffer_from_hex cs = []"

text \<open>\<^verbatim>\<open>timingSafeEqual\<close> raises on buffers of different length: \<open>None\<close>.\<close>

definition timingSafeEqual :: "byte list \<Rightarrow> byte list \<Rightarrow> bool option" where
  "timingSafeEqual a b = (if length a \<noteq> length b then None else Some (a = b))"

subsection \<open>The signature verifier\<close>

text \<open>
  The \<^verbatim>\<open>try\<close> block of \<^verbatim>\<open>verifyWebhookSignature\<close> turns every raise into \<open>False\<close>; the
  only call that can raise is \<open>timingSafeEqual\<close>.
\<close>

definition verifyWebhookSignature :: "string \<Rightarrow> string \<Rightarrow> string \<Rightarrow> bool" where
  "verifyWebhookSignature payload signature secret =
     (if payload = [] \<or> signature = [] \<or> secret = [] then False
      else
        (let expected = digest_hex (hmac_sha256 (utf8 secret) (utf8 payload));
             signatureBuffer = Buffer_from_hex signature;
             expectedBuffer = Buffer_from_hex expected
         in if length signatureBuffer \<noteq> length expectedBuffer then False
            else (case timingSafeEqual signatureBuffer expectedBuffer of
                    None \<Rightarrow> False
                  | Some r \<Rightarrow> r)))"

text \<open>Flipping bit \<open>b\<close> (0 the lowest) of one character, and of the character at index \<open>i\<close>.\<close>

fun flip_char :: "nat \<Rightarrow> char \<Rightarrow> char" where
  "flip_char b (Char b0 b1 b2 b3 b4 b5 b6 b7) =
     Char (b0 \<noteq> (b = 0)) (b1 \<noteq> (b = 1)) (b2 \<noteq> (b = 2)) (b3 \<noteq> (b = 3))
          (b4 \<noteq> (b = 4)) (b5 \<noteq> (b = 5)) (b6 \<noteq> (b = 6)) (b7 \<noteq> (b = 7))"

definition mutate_bit :: "nat \<Rightarrow> nat \<Rightarrow> string \<Rightarrow> string" where
  "mutate_bit i b s = s[i := flip_char b (s ! i)]"

text \<open>
  Two readings of a signature text: a valid hex string (an even number of characters, all
  of them hex digits), and a text that begins with the 64 hex digits of a 32-byte value.
\<close>

definition valid_hex :: "string \<Rightarrow> bool" where
  "valid_hex s = (even (length s) \<and> list_all (\<lambda>c. unhex c \<noteq> None) s)"

definition begins_with_64_hex_digits :: "string \<Rightarrow> bool" where
  "begins_with_64_hex_digits s = (64 \<le> length s \<and> list_all (\<lambda>c. unhex c \<noteq> None) (take 64 s))"

subsection \<open>Data model (\<^verbatim>\<open>types.ts\<close>)\<close>

text \<open>
  A parsed JSON document. Numbers are restricted to integers. An object is the finite map
  from the names of its own properties to their values: the order in which JavaScript
  enumerates the properties is not part of the document (a \<^verbatim>\<open>JSONB\<close> or \<^verbatim>\<open>JSON\<close> column does
  not keep it).
\<close>

datatype json =
    JNull
  | JBool bool
  | JNumber int
  | JString string
  | JArray "json list"
  | JObject "(string, json) fmap"

text \<open>
  A JavaScript \<^verbatim>\<open>Date\<close>: the milliseconds since the epoch, or the value \<^verbatim>\<open>Invalid Date\<close>
  that \<^verbatim>\<open>new Date(s)\<close> gives on text it cannot read.
\<close>

datatype Date = Date int | InvalidDate


text \<open>
  How deep a document is nested: the number of arrays and objects around its innermost
  value. \<open>nested n v\<close> is \<open>v\<close> inside \<open>n\<close> arrays.
\<close>

primrec json_depth :: "json \<Rightarrow> nat" where
  "json_depth JNull = 0"
| "json_depth (JBool b) = 0"
| "json_depth (JNumber n) = 0"
| "json_depth (JString s) = 0"
| "json_depth (JArray xs) = Suc (Max (insert 0 (set (map json_depth xs))))"
| "json_depth (JObject m) = Suc (Max (insert 0 (fmran' (fmmap json_depth m))))"


record WebhookEvent =
  ev_id :: string
  event_type :: string
  event_id :: string
  data :: json
  created_at :: Date
  received_at :: Date

record DatabaseConfig =
  db_type :: string
  url :: string

text \<open>The configuration; its field \<^verbatim>\<open>tableName\<close> is \<open>configTableName\<close> here.\<close>

record IngesterConfig =
  port :: nat
  secret :: string
  database :: DatabaseConfig
  configTableName :: string

text \<open>
  The options of \<open>query\<close>; \<open>None\<close> is an absent field. The two numbers are integers: a
  fraction, \<^verbatim>\<open>NaN\<close> or an infinity is outside the model (every engine refuses one as
  \<^verbatim>\<open>LIMIT\<close> or \<^verbatim>\<open>OFFSET\<close>).
\<close>

record QueryOptions =
  type_filter :: "string option"
  limit :: "int option"
  offset :: "int option"

datatype AdapterKind = PostgresAdapter | MysqlAdapter | SqliteAdapter

datatype error =
    NotConnected AdapterKind
  | DriverMissing AdapterKind
  | UnsupportedDatabase string
  | EngineError string
  | RangeError
  | TypeError
  | SyntaxError

subsection \<open>The backing store\<close>

text \<open>
  The database engines are outside the repository. The model keeps, for each table name,
  the rows in storage order, and gives each SQL statement of the adapters the meaning the
  engine documents for it. A timestamp column holds the instant that the text written by
  the adapter denotes; what an engine makes of the shape of that text is said where the
  engine reads or compares it.
\<close>

record row =
  row_id :: string
  row_event_type :: string
  row_event_id :: string
  row_data :: json
  row_created_at :: int
  row_received_at :: int

type_synonym store = "string \<Rightarrow> row list option"

text \<open>\<^verbatim>\<open>CREATE TABLE IF NOT EXISTS\<close> (the indexes created with it hold no data of their own).\<close>

definition exec_create_table :: "string \<Rightarrow> store \<Rightarrow> store" where
  "exec_create_table t db = (case db t of None \<Rightarrow> db(t \<mapsto> []) | Some rows \<Rightarrow> db)"

text \<open>
  PostgreSQL and SQLite compare the text of a column byte by byte. The MySQL table is
  created with \<^verbatim>\<open>COLLATE=utf8mb4_unicode_ci\<close>, which takes no account of the case of a
  letter nor of spaces at the end; \<open>text_key\<close> is what an engine compares in the place of
  a text. (That collation also identifies letters that differ by an accent: the model
  follows it on ASCII text.)
\<close>

definition ascii_lower :: "char \<Rightarrow> char" where
  "ascii_lower c =
     (let n = (of_char c :: int) in if 65 \<le> n \<and> n \<le> 90 then flip_char 5 c else c)"

definition ci_fold :: "string \<Rightarrow> string" where
  "ci_fold s = map ascii_lower (rev (dropWhile (\<lambda>c. c = CHR '' '') (rev s)))"

definition text_key :: "AdapterKind \<Rightarrow> string \<Rightarrow> string" where
  "text_key k s = (case k of MysqlAdapter \<Rightarrow> ci_fold s | PostgresAdapter \<Rightarrow> s | SqliteAdapter \<Rightarrow> s)"

definition pk_conflict :: "AdapterKind \<Rightarrow> row \<Rightarrow> row list \<Rightarrow> bool" where
  "pk_conflict k r rows =
     (text_key k (row_id r) \<in> set (map (\<lambda>x. text_key k (row_id x)) rows))"

definition event_id_conflict :: "AdapterKind \<Rightarrow> row \<Rightarrow> row list \<Rightarrow> bool" where
  "event_id_conflict k r rows =
     (text_key k (row_event_id r) \<in> set (map (\<lambda>x. text_key k (row_event_id x)) rows))"


text \<open>
  PostgreSQL converts every parameter when it is bound, before the statement runs, and
  raises on one it cannot convert. It takes no text with a NUL character, neither as
  \<^verbatim>\<open>TEXT\<close> nor as a string or a name inside a \<^verbatim>\<open>JSONB\<close> document; and it reads a
  \<^verbatim>\<open>TIMESTAMPTZ\<close> from a text with four year digits other than 0000, so not from the
  text of a date before the year 0001 or after the year 9999.
\<close>

definition pg_text :: "string \<Rightarrow> bool" where
  "pg_text s = (CHR 0x00 \<notin> set s)"

primrec pg_jsonb :: "json \<Rightarrow> bool" where
  "pg_jsonb JNull = True"
| "pg_jsonb (JBool b) = True"
| "pg_jsonb (JNumber n) = True"
| "pg_jsonb (JString s) = pg_text s"
| "pg_jsonb (JArray xs) = list_all (\<lambda>b. b) (map pg_jsonb xs)"
| "pg_jsonb (JObject m) = fmpred (\<lambda>name b. pg_text name \<and> b) (fmmap pg_jsonb m)"

definition pg_timestamptz :: "int \<Rightarrow> bool" where
  "pg_timestamptz t = (- 62135596800000 \<le> t \<and> t \<le> 253402300799999)"

definition pg_accepts :: "row \<Rightarrow> bool" where
  "pg_accepts r =
     (pg_text (row_id r) \<and> pg_text (row_event_type r) \<and> pg_text (row_event_id r)
      \<and> pg_jsonb (row_data r)
      \<and> pg_timestamptz (row_created_at r) \<and> pg_timestamptz (row_received_at r))"

text \<open>
  The columns \<open>id\<close>, \<open>event_type\<close> and \<open>event_id\<close> have an index each. PostgreSQL raises
  on a new row when the text of an indexed column does not fit an index entry, of about
  2700 bytes after compression. A text of ten million bytes never fits; a text of at
  most 255 bytes always does; in between it depends on how well the text compresses,
  which is not followed here (the model stores the row).
\<close>

definition too_long_for_index :: "row \<Rightarrow> bool" where
  "too_long_for_index r =
     (10000000 \<le> length (row_id r) \<or> 10000000 \<le> length (row_event_type r)
      \<or> 10000000 \<le> length (row_event_id r))"

text \<open>
  PostgreSQL \<^verbatim>\<open>INSERT ... ON CONFLICT (event_id) DO NOTHING\<close> skips the row on a duplicate
  \<open>event_id\<close> and raises on a duplicate primary key; MySQL \<^verbatim>\<open>INSERT IGNORE\<close> and SQLite
  \<^verbatim>\<open>INSERT OR IGNORE\<close> skip the row on either. SQLite stores every text as it is, and
  \<^verbatim>\<open>INSERT IGNORE\<close> turns the errors of MySQL about a value into warnings (it cuts a text
  at the 255 characters of its column, which the model does not follow).
\<close>

definition exec_insert :: "AdapterKind \<Rightarrow> string \<Rightarrow> row \<Rightarrow> store \<Rightarrow> error + store" where
  "exec_insert k t r db =
     (case db t of
        None \<Rightarrow> Inl (EngineError ''no such table'')
      | Some rows \<Rightarrow>
          (case k of
             PostgresAdapter \<Rightarrow>
               if \<not> pg_accepts r then Inl (EngineError ''invalid parameter value'')
               else if event_id_conflict k r rows then Inr db
               else if pk_conflict k r rows then Inl (EngineError ''duplicate key'')
               else if too_long_for_index r then Inl (EngineError ''index row size'')
               else Inr (db(t \<mapsto> rows @ [r]))
           | MysqlAdapter \<Rightarrow>
               if event_id_conflict k r rows \<or> pk_conflict k r rows then Inr db
               else Inr (db(t \<mapsto> rows @ [r]))
           | SqliteAdapter \<Rightarrow>
               if event_id_conflict k r rows \<or> pk_conflict k r rows then Inr db
               else Inr (db(t \<mapsto> rows @ [r]))))"

text \<open>
  \<^verbatim>\<open>ORDER BY created_at DESC\<close>. PostgreSQL and MySQL order the instants. The column of
  SQLite is \<^verbatim>\<open>TEXT\<close> and holds the text of \<^verbatim>\<open>toISOString()\<close> itself, so SQLite orders
  the texts, character by character: \<^verbatim>\<open>+\<close> comes before \<^verbatim>\<open>-\<close> and \<^verbatim>\<open>-\<close> before the digits,
  and two texts of the same shape have their fields at the same places. So every date
  after the year 9999 comes before every date before the year 0000, and those before
  every date of the years 0000 to 9999; two dates written with \<^verbatim>\<open>+\<close>, or two with four
  year digits, are ordered as their instants; two dates written with \<^verbatim>\<open>-\<close> are ordered
  by the year counted backwards and, within a year, as their instants. \<open>iso_text_key\<close>
  gives an instant a key that is ordered as its text, and \<open>iso_year\<close> is the year of an
  instant in the calendar of \<^verbatim>\<open>toISOString()\<close>.

  The engines do not specify the order of rows with equal keys; here they keep their
  storage order.
\<close>

definition iso_year :: "int \<Rightarrow> int" where
  "iso_year t =
     (let days = t div 86400000;
          z = days + 719468;
          era = z div 146097;
          doe = z - era * 146097;
          yoe = (doe - doe div 1460 + doe div 36524 - doe div 146096) div 365;
          doy = doe - (365 * yoe + yoe div 4 - yoe div 100);
          mp = (5 * doy + 2) div 153;
          m = (if mp < 10 then mp + 3 else mp - 9);
          y = yoe + era * 400
      in if m \<le> 2 then y + 1 else y)"

definition iso_text_key :: "int \<Rightarrow> int \<times> int \<times> int" where
  "iso_text_key t =
     (if 253402300799999 < t then (0, 0, t)
      else if t < - 62167219200000 then (1, - iso_year t, t)
      else (2, 0, t))"

text \<open>The key that is ordered upwards as \<open>k\<close> is ordered downwards.\<close>

definition descending :: "int \<times> int \<times> int \<Rightarrow> int \<times> int \<times> int" where
  "descending k = (case k of (a, b, c) \<Rightarrow> (- a, - b, - c))"

definition order_by_created_at_desc :: "AdapterKind \<Rightarrow> row list \<Rightarrow> row list" where
  "order_by_created_at_desc k rows =
     (case k of
        SqliteAdapter \<Rightarrow> sort_key (\<lambda>r. descending (iso_text_key (row_created_at r))) rows
      | PostgresAdapter \<Rightarrow> sort_key (\<lambda>r. - row_created_at r) rows
      | MysqlAdapter \<Rightarrow> sort_key (\<lambda>r. - row_created_at r) rows)"

text \<open>
  \<^verbatim>\<open>LIMIT l OFFSET o\<close>. The engines count in 64 bits and raise on a number that is no
  64-bit integer. SQLite reads a negative limit as no limit and a negative offset as 0;
  PostgreSQL and MySQL reject negative values.
\<close>

definition int64 :: "int \<Rightarrow> bool" where
  "int64 n = (- 9223372036854775808 \<le> n \<and> n < 9223372036854775808)"

definition limit_offset :: "AdapterKind \<Rightarrow> int \<Rightarrow> int \<Rightarrow> row list \<Rightarrow> error + row list" where
  "limit_offset k l ofs rows =
     (if \<not> int64 l \<or> \<not> int64 ofs then Inl (EngineError ''LIMIT or OFFSET out of range'')
      else
        (case k of
           SqliteAdapter \<Rightarrow>
             Inr (if l < 0 then drop (nat ofs) rows else take (nat l) (drop (nat ofs) rows))
         | PostgresAdapter \<Rightarrow>
             if l < 0 \<or> ofs < 0 then Inl (EngineError ''negative LIMIT or OFFSET'')
             else Inr (take (nat l) (drop (nat ofs) rows))
         | MysqlAdapter \<Rightarrow>
             if l < 0 \<or> ofs < 0 then Inl (EngineError ''negative LIMIT or OFFSET'')
             else Inr (take (nat l) (drop (nat ofs) rows))))"

text \<open>
  The \<^verbatim>\<open>SELECT\<close> of \<^verbatim>\<open>query\<close>; \<open>cond\<close> is the parameter of the \<^verbatim>\<open>WHERE\<close> clause, if there is
  one, compared with \<open>event_type\<close> as the engine compares text.
\<close>

definition exec_select ::
  "AdapterKind \<Rightarrow> string \<Rightarrow> string option \<Rightarrow> int \<Rightarrow> int \<Rightarrow> store \<Rightarrow> error + row list" where
  "exec_select k t cond l ofs db =
     (case db t of
        None \<Rightarrow> Inl (EngineError ''no such table'')
      | Some rows \<Rightarrow>
          if k = PostgresAdapter \<and> (case cond of None \<Rightarrow> False | Some ty \<Rightarrow> \<not> pg_text ty)
          then Inl (EngineError ''invalid parameter value'')
          else
            (let matching = (case cond of
                               None \<Rightarrow> rows
                             | Some ty \<Rightarrow>
                                 filter (\<lambda>r. text_key k (row_event_type r) = text_key k ty) rows)
             in limit_offset k l ofs (order_by_created_at_desc k matching)))"

subsection \<open>The adapters (\<^verbatim>\<open>adapters/postgres.ts\<close>, \<^verbatim>\<open>mysql.ts\<close>, \<^verbatim>\<open>sqlite.ts\<close>, \<^verbatim>\<open>index.ts\<close>)\<close>

text \<open>
  The three classes have the same fields and the same method bodies up to the SQL dialect
  and the text of their messages, so one record carries the class as \<open>kind\<close>. The field
  \<open>pool\<close> is \<^verbatim>\<open>this.pool\<close> (\<^verbatim>\<open>this.db\<close> in the SQLite class): \<open>None\<close> is \<^verbatim>\<open>null\<close>.
\<close>

datatype handle = Handle string

record adapter =
  kind :: AdapterKind
  connectionString :: string
  tableName :: string
  pool :: "handle option"

definition new_adapter :: "AdapterKind \<Rightarrow> string \<Rightarrow> string \<Rightarrow> adapter" where
  "new_adapter k cs tn = \<lparr>kind = k, connectionString = cs, tableName = tn, pool = None\<rparr>"

definition createAdapter :: "DatabaseConfig \<Rightarrow> string option \<Rightarrow> error + adapter" where
  "createAdapter config tn =
     (let tableName = (case tn of None \<Rightarrow> ''veilmail_webhook_events'' | Some t \<Rightarrow> t)
      in if db_type config = ''postgres'' then Inr (new_adapter PostgresAdapter (url config) tableName)
         else if db_type config = ''mysql'' then Inr (new_adapter MysqlAdapter (url config) tableName)
         else if db_type config = ''sqlite'' then Inr (new_adapter SqliteAdapter (url config) tableName)
         else Inl (UnsupportedDatabase (db_type config)))"

text \<open>
  What the world does when \<^verbatim>\<open>connect\<close> runs: the driver module cannot be imported; the
  constructor of the pool or database raises; the pool or database object is made but the
  check that follows it (\<^verbatim>\<open>pool.connect()\<close>, \<^verbatim>\<open>getConnection()\<close>, the \<^verbatim>\<open>pragma\<close>) raises; or all of it
  works. The object is assigned to the field before that check.
\<close>

datatype connect_outcome = ImportFails | ConstructorFails | CheckFails | ConnectOk

definition connect :: "connect_outcome \<Rightarrow> adapter \<Rightarrow> error option \<times> adapter" where
  "connect outcome a =
     (case outcome of
        ImportFails \<Rightarrow> (Some (DriverMissing (kind a)), a)
      | ConstructorFails \<Rightarrow> (Some (EngineError ''cannot open''), a)
      | CheckFails \<Rightarrow>
          (Some (EngineError ''cannot connect''), a\<lparr>pool := Some (Handle (connectionString a))\<rparr>)
      | ConnectOk \<Rightarrow> (None, a\<lparr>pool := Some (Handle (connectionString a))\<rparr>))"

definition ensureConnected :: "adapter \<Rightarrow> error option" where
  "ensureConnected a = (if pool a = None then Some (NotConnected (kind a)) else None)"

definition createTable :: "adapter \<Rightarrow> store \<Rightarrow> error + store" where
  "createTable a db =
     (case ensureConnected a of
        Some e \<Rightarrow> Inl e
      | None \<Rightarrow> Inr (exec_create_table (tableName a) db))"

text \<open>
  \<^verbatim>\<open>toISOString()\<close> raises a \<^verbatim>\<open>RangeError\<close> on an invalid date. On a valid date the model
  keeps the instant; the shape of its text matters to the engines and is given with them
  (\<open>four_digit_year\<close>, \<open>iso_text_key\<close>, \<open>pg_timestamptz\<close>).
\<close>

definition toISOString :: "Date \<Rightarrow> error + int" where
  "toISOString d = (case d of InvalidDate \<Rightarrow> Inl RangeError | Date t \<Rightarrow> Inr t)"

text \<open>
  \<^verbatim>\<open>JSON.stringify\<close> goes down the document call by call and raises a \<^verbatim>\<open>RangeError\<close> when
  the call stack is used up: at a depth of a million it always does, at a depth of 64 or
  less it never does, and in between it depends on the stack that is left, which is not
  followed here (the model takes the text to be made).
\<close>

definition JSON_stringify_raises :: "json \<Rightarrow> bool" where
  "JSON_stringify_raises v = (1000000 \<le> json_depth v)"

text \<open>The parameter list of the \<^verbatim>\<open>INSERT\<close>, evaluated left to right.\<close>

definition insert_params :: "WebhookEvent \<Rightarrow> error + row" where
  "insert_params event =
     (if JSON_stringify_raises (data event) then Inl RangeError
      else
        (case toISOString (created_at event) of
           Inl e \<Rightarrow> Inl e
         | Inr c \<Rightarrow>
             (case toISOString (received_at event) of
                Inl e \<Rightarrow> Inl e
              | Inr r \<Rightarrow>
                  Inr \<lparr>row_id = ev_id event, row_event_type = event_type event,
                       row_event_id = event_id event, row_data = data event,
                       row_created_at = c, row_received_at = r\<rparr>)))"

definition insert_event :: "adapter \<Rightarrow> WebhookEvent \<Rightarrow> store \<Rightarrow> error + store" where
  "insert_event a event db =
     (case ensureConnected a of
        Some e \<Rightarrow> Inl e
      | None \<Rightarrow>
          (case insert_params event of
             Inl e \<Rightarrow> Inl e
           | Inr r \<Rightarrow> exec_insert (kind a) (tableName a) r db))"

text \<open>
  The events made from the rows of the result. The SQLite adapter parses the text of the
  \<open>data\<close> column, which gives the stored document. The PostgreSQL and MySQL adapters get
  the document from the driver and return it unless it is a string; a string they hand
  to \<^verbatim>\<open>JSON.parse\<close> once more, which raises a \<^verbatim>\<open>SyntaxError\<close> on a string that is no JSON
  text: on every string that, after white space, does not begin with a character that a
  JSON text can begin with. On the other strings the second parse raises or gives
  another document; the model does not follow it there and returns the string, and what
  is stated below about the events that a query returns is stated for \<open>data\<close> that is no
  JSON string (the type of \<open>data\<close> in \<^verbatim>\<open>types.ts\<close> is that of an object).
\<close>

definition starts_as_json :: "string \<Rightarrow> bool" where
  \<open>starts_as_json s =
     (case dropWhile (\<lambda>c. c \<in> set [CHR 0x20, CHR 0x09, CHR 0x0A, CHR 0x0D]) s of
        [] \<Rightarrow> False
      | c # cs \<Rightarrow> c \<in> set ''{["-0123456789tfn'')\<close>

definition reads_data :: "AdapterKind \<Rightarrow> json \<Rightarrow> bool" where
  "reads_data k v =
     (case v of JString s \<Rightarrow> k = SqliteAdapter \<or> starts_as_json s | _ \<Rightarrow> True)"

definition row_to_event :: "row \<Rightarrow> WebhookEvent" where
  "row_to_event r =
     \<lparr>ev_id = row_id r, event_type = row_event_type r, event_id = row_event_id r,
      data = row_data r, created_at = Date (row_created_at r),
      received_at = Date (row_received_at r)\<rparr>"

definition rows_to_events :: "AdapterKind \<Rightarrow> row list \<Rightarrow> error + WebhookEvent list" where
  "rows_to_events k rows =
     (if list_all (\<lambda>r. reads_data k (row_data r)) rows then Inr (map row_to_event rows)
      else Inl SyntaxError)"

text \<open>
  \<^verbatim>\<open>query(options?)\<close>: \<^verbatim>\<open>options?.limit ?? 50\<close>, \<^verbatim>\<open>options?.offset ?? 0\<close>, and the condition on
  \<open>event_type\<close> only when \<^verbatim>\<open>options?.type\<close> is truthy, that is a non-empty string.
  \<open>select_params\<close> is what the method computes before it runs its statement: the
  parameter of the \<^verbatim>\<open>WHERE\<close> clause (\<open>None\<close> when the statement has no such clause), the
  limit and the offset.
\<close>

definition select_params :: "QueryOptions option \<Rightarrow> string option \<times> int \<times> int" where
  "select_params options =
     (let l = (case Option.bind options limit of None \<Rightarrow> 50 | Some n \<Rightarrow> n);
          ofs = (case Option.bind options offset of None \<Rightarrow> 0 | Some n \<Rightarrow> n);
          cond = (case Option.bind options type_filter of
                    None \<Rightarrow> None
                  | Some ty \<Rightarrow> if ty = [] then None else Some ty)
      in (cond, l, ofs))"

definition query :: "adapter \<Rightarrow> QueryOptions option \<Rightarrow> store \<Rightarrow> error + WebhookEvent list" where
  "query a options db =
     (case ensureConnected a of
        Some e \<Rightarrow> Inl e
      | None \<Rightarrow>
          (case select_params options of
             (cond, l, ofs) \<Rightarrow>
               (case exec_select (kind a) (tableName a) cond l ofs db of
                  Inl e \<Rightarrow> Inl e
                | Inr rows \<Rightarrow> rows_to_events (kind a) rows)))"

text \<open>
  The MySQL branch of the model simplifies three things, and what is stated below about
  the rows that a query returns is stated for PostgreSQL and SQLite: \<^verbatim>\<open>mysql2\<close> reads a
  \<^verbatim>\<open>DATETIME\<close> back in the time zone of the process (the model reads it as UTC); MySQL
  stores the zero date for a text that is no \<^verbatim>\<open>DATETIME\<close> (the model keeps the instant);
  and MySQL servers from version 8.0.22 on refuse the numbers that \<^verbatim>\<open>execute\<close> sends as
  \<^verbatim>\<open>LIMIT\<close> and \<^verbatim>\<open>OFFSET\<close> (the model follows the servers that take them).
\<close>

text \<open>
  \<^verbatim>\<open>close\<close>: with no handle it does nothing; otherwise it ends the pool and only then sets
  the field to \<^verbatim>\<open>null\<close>. \<open>end_ok\<close> tells whether the driver's \<^verbatim>\<open>end()\<close> or \<^verbatim>\<open>close()\<close> returns.
\<close>

definition close :: "bool \<Rightarrow> adapter \<Rightarrow> error option \<times> adapter" where
  "close end_ok a =
     (case pool a of
        None \<Rightarrow> (None, a)
      | Some h \<Rightarrow> if end_ok then (None, a\<lparr>pool := None\<rparr>)
                  else (Some (EngineError ''cannot close''), a))"

subsection \<open>The request router (\<^verbatim>\<open>server.ts\<close>)\<close>

text \<open>
  What a request handler takes from the JavaScript runtime: \<^verbatim>\<open>JSON.parse\<close> (\<open>None\<close> when it
  raises), \<^verbatim>\<open>Date.parse\<close> (\<open>None\<close> for \<^verbatim>\<open>NaN\<close>), the text of a value that is not a string,
  the two results of \<^verbatim>\<open>randomUUID()\<close> and the readings of the clock by \<^verbatim>\<open>new Date()\<close>,
  each named after the place that uses it.
\<close>

record env =
  JSON_parse :: "string \<Rightarrow> json option"
  Date_parse :: "string \<Rightarrow> int option"
  js_String :: "json \<Rightarrow> string"
  uuid_for_id :: string
  uuid_for_event_id :: string
  clock_created_at :: int
  clock_received_at :: int
  clock_health :: int

text \<open>
  A request after \<^verbatim>\<open>parseUrl\<close>: the path, the entries of the query string in order, the
  headers under their lower-case names, and the body read by \<^verbatim>\<open>readBody\<close>.
\<close>

record request =
  req_method :: "string option"
  req_path :: string
  req_query :: "(string \<times> string) list"
  req_headers :: "(string \<times> string) list"
  req_body :: string

datatype response_body =
    HealthBody int string
  | EventsBody "WebhookEvent list" nat
  | ReceivedBody string
  | ErrorBody string

record response =
  status :: nat
  body :: response_body

definition sendJson :: "nat \<Rightarrow> response_body \<Rightarrow> response" where
  "sendJson statusCode d = \<lparr>status = statusCode, body = d\<rparr>"

text \<open>\<^verbatim>\<open>toUpperCase\<close> on the ASCII letters (a method name has no others).\<close>

definition toUpperCase :: "string \<Rightarrow> string" where
  "toUpperCase s =
     map (\<lambda>c. let n = (of_char c :: int) in if 97 \<le> n \<and> n \<le> 122 then flip_char 5 c else c) s"

text \<open>
  \<^verbatim>\<open>parseInt(s, 10)\<close>: leading white space, an optional sign, then the longest run of
  decimal digits; \<open>None\<close> is \<^verbatim>\<open>NaN\<close>. White space is what JavaScript trims: the ASCII
  characters 9 to 13 and 32, and U+00A0, U+1680, U+2000 to U+200A, U+2028, U+2029,
  U+202F, U+205F, U+3000 and U+FEFF, here in their UTF-8 bytes. The result is the exact
  integer: JavaScript gives the same number up to \<open>2 ^ 53\<close>, and beyond it the nearest
  number it has, so what is stated below about a parsed number is stated up to
  \<open>2 ^ 53 - 1\<close>.
\<close>

definition white_space :: "string list" where
  "white_space =
     [[CHR 0x09], [CHR 0x0A], [CHR 0x0B], [CHR 0x0C], [CHR 0x0D], [CHR 0x20],
      [CHR 0xC2, CHR 0xA0], [CHR 0xE1, CHR 0x9A, CHR 0x80],
      [CHR 0xE2, CHR 0x80, CHR 0x80], [CHR 0xE2, CHR 0x80, CHR 0x81],
      [CHR 0xE2, CHR 0x80, CHR 0x82], [CHR 0xE2, CHR 0x80, CHR 0x83],
      [CHR 0xE2, CHR 0x80, CHR 0x84], [CHR 0xE2, CHR 0x80, CHR 0x85],
      [CHR 0xE2, CHR 0x80, CHR 0x86], [CHR 0xE2, CHR 0x80, CHR 0x87],
      [CHR 0xE2, CHR 0x80, CHR 0x88], [CHR 0xE2, CHR 0x80, CHR 0x89],
      [CHR 0xE2, CHR 0x80, CHR 0x8A], [CHR 0xE2, CHR 0x80, CHR 0xA8],
      [CHR 0xE2, CHR 0x80, CHR 0xA9], [CHR 0xE2, CHR 0x80, CHR 0xAF],
      [CHR 0xE2, CHR 0x81, CHR 0x9F], [CHR 0xE3, CHR 0x80, CHR 0x80],
      [CHR 0xEF, CHR 0xBB, CHR 0xBF]]"

function trim_start :: "string \<Rightarrow> string" where
  "trim_start s =
     (case find (\<lambda>w. take (length w) s = w) white_space of
        None \<Rightarrow> s
      | Some w \<Rightarrow> trim_start (drop (length w) s))"
  by pat_completeness auto
termination
proof (relation "measure length")
  show "wf (measure length)" by simp
next
  fix s w assume "find (\<lambda>w. take (length w) s = w) white_space = Some w"
  then have "w \<in> set white_space" "take (length w) s = w"
    by (auto simp: find_Some_iff)
  then have "w \<noteq> []" "s \<noteq> []" by (auto simp: white_space_def)
  then show "(drop (length w) s, s) \<in> measure length" by simp
qed

declare trim_start.simps [simp del]

definition isDigit :: "char \<Rightarrow> bool" where
  "isDigit c = (let n = (of_char c :: int) in 48 \<le> n \<and> n \<le> 57)"

definition decimal :: "string \<Rightarrow> int" where
  "decimal ds = foldl (\<lambda>acc c. 10 * acc + (of_char c - 48)) 0 ds"

definition parseInt :: "string \<Rightarrow> int option" where
  "parseInt s =
     (let t = trim_start s;
          neg = (t \<noteq> [] \<and> hd t = CHR ''-'');
          u = (if t \<noteq> [] \<and> (hd t = CHR ''-'' \<or> hd t = CHR ''+'') then tl t else t);
          ds = takeWhile isDigit u
      in if ds = [] then None else Some (if neg then - decimal ds else decimal ds))"

text \<open>\<^verbatim>\<open>n || d\<close> on a number: \<open>d\<close> for \<^verbatim>\<open>NaN\<close> and for 0.\<close>

definition or_default :: "int option \<Rightarrow> int \<Rightarrow> int" where
  "or_default n d = (case n of None \<Rightarrow> d | Some v \<Rightarrow> if v = 0 then d else v)"

definition searchParams_has :: "(string \<times> string) list \<Rightarrow> string \<Rightarrow> bool" where
  "searchParams_has q name = (name \<in> set (map fst q))"

definition searchParams_get :: "(string \<times> string) list \<Rightarrow> string \<Rightarrow> string option" where
  "searchParams_get q name = map_of q name"

text \<open>The three constants \<^verbatim>\<open>type\<close>, \<^verbatim>\<open>limit\<close> and \<^verbatim>\<open>offset\<close> of the \<^verbatim>\<open>GET /events\<close> branch.\<close>

definition events_type :: "(string \<times> string) list \<Rightarrow> string option" where
  "events_type q = searchParams_get q ''type''"

definition events_limit :: "(string \<times> string) list \<Rightarrow> int" where
  "events_limit q =
     (if searchParams_has q ''limit''
      then min (max (or_default (Option.bind (searchParams_get q ''limit'') parseInt) 50) 1) 1000
      else 50)"

definition events_offset :: "(string \<times> string) list \<Rightarrow> int" where
  "events_offset q =
     (if searchParams_has q ''offset''
      then max (or_default (Option.bind (searchParams_get q ''offset'') parseInt) 0) 0
      else 0)"

text \<open>Reading a property: \<open>None\<close> is \<^verbatim>\<open>undefined\<close>. (On \<^verbatim>\<open>null\<close> the read raises, see \<open>build_event\<close>.)\<close>

definition get_prop :: "json \<Rightarrow> string \<Rightarrow> json option" where
  "get_prop v name = (case v of JObject kvs \<Rightarrow> fmlookup kvs name | _ \<Rightarrow> None)"

definition truthy :: "json \<Rightarrow> bool" where
  "truthy v =
     (case v of
        JNull \<Rightarrow> False
      | JBool b \<Rightarrow> b
      | JNumber n \<Rightarrow> n \<noteq> 0
      | JString s \<Rightarrow> s \<noteq> []
      | JArray xs \<Rightarrow> True
      | JObject kvs \<Rightarrow> True)"

text \<open>
  \<^verbatim>\<open>(v as string) ?? d\<close>: the cast checks nothing, \<open>d\<close> stands in for \<^verbatim>\<open>undefined\<close> and \<^verbatim>\<open>null\<close>.
  A value that is no string is taken here as the text \<open>js_String\<close> gives for it; the code
  hands the value itself to the driver, and what each driver makes of a number, a
  boolean, an array or an object is not followed here: the fields of an event are strings
  in what is stated below.
\<close>

definition string_or :: "env \<Rightarrow> json option \<Rightarrow> string \<Rightarrow> string" where
  "string_or e v d =
     (case v of
        None \<Rightarrow> d
      | Some JNull \<Rightarrow> d
      | Some (JString s) \<Rightarrow> s
      | Some x \<Rightarrow> js_String e x)"

text \<open>
  \<^verbatim>\<open>new Date(v)\<close>: a string is parsed; a number is the time value when it is in range,
  a boolean or \<^verbatim>\<open>null\<close> is first made a number, an array or object first a string.
\<close>

definition new_Date :: "env \<Rightarrow> json \<Rightarrow> Date" where
  "new_Date e v =
     (case v of
        JString s \<Rightarrow> (case Date_parse e s of None \<Rightarrow> InvalidDate | Some t \<Rightarrow> Date t)
      | JNumber n \<Rightarrow> if \<bar>n\<bar> \<le> 8640000000000000 then Date n else InvalidDate
      | JBool b \<Rightarrow> Date (if b then 1 else 0)
      | JNull \<Rightarrow> Date 0
      | JArray xs \<Rightarrow> (case Date_parse e (js_String e v) of None \<Rightarrow> InvalidDate | Some t \<Rightarrow> Date t)
      | JObject kvs \<Rightarrow> (case Date_parse e (js_String e v) of None \<Rightarrow> InvalidDate | Some t \<Rightarrow> Date t))"

text \<open>
  The object literal that builds the event from the parsed payload. Reading
  \<^verbatim>\<open>payload.type\<close> raises a \<^verbatim>\<open>TypeError\<close> when the payload is \<^verbatim>\<open>null\<close>.
\<close>

definition build_event :: "env \<Rightarrow> json \<Rightarrow> error + WebhookEvent" where
  "build_event e payload =
     (if payload = JNull then Inl TypeError
      else Inr
        \<lparr>ev_id = uuid_for_id e,
         event_type = string_or e (get_prop payload ''type'') ''unknown'',
         event_id = string_or e (get_prop payload ''id'') (uuid_for_event_id e),
         data = payload,
         created_at = (case get_prop payload ''created_at'' of
                         None \<Rightarrow> Date (clock_created_at e)
                       | Some v \<Rightarrow> if truthy v then new_Date e v else Date (clock_created_at e)),
         received_at = Date (clock_received_at e)\<rparr>)"

text \<open>The \<^verbatim>\<open>POST /webhook\<close> branch; \<open>Inl\<close> is a raise that reaches the \<^verbatim>\<open>catch\<close> of the handler.\<close>

definition receiveWebhook ::
  "env \<Rightarrow> IngesterConfig \<Rightarrow> adapter \<Rightarrow> store \<Rightarrow> request \<Rightarrow> error + response \<times> store" where
  "receiveWebhook e config a db req =
     (case map_of (req_headers req) ''x-veilmail-signature'' of
        None \<Rightarrow> Inr (sendJson 401 (ErrorBody ''Missing x-veilmail-signature header''), db)
      | Some signature \<Rightarrow>
          if signature = [] then
            Inr (sendJson 401 (ErrorBody ''Missing x-veilmail-signature header''), db)
          else if \<not> verifyWebhookSignature (req_body req) signature (secret config) then
            Inr (sendJson 401 (ErrorBody ''Invalid webhook signature''), db)
          else
            (case JSON_parse e (req_body req) of
               None \<Rightarrow> Inr (sendJson 400 (ErrorBody ''Invalid JSON payload''), db)
             | Some payload \<Rightarrow>
                 (case build_event e payload of
                    Inl err \<Rightarrow> Inl err
                  | Inr event \<Rightarrow>
                      (case insert_event a event db of
                         Inl err \<Rightarrow> Inl err
                       | Inr db' \<Rightarrow> Inr (sendJson 200 (ReceivedBody (ev_id event)), db')))))"

text \<open>
  The \<^verbatim>\<open>GET /events\<close> branch. The router takes any \<^verbatim>\<open>DatabaseAdapter\<close>; \<open>listEvents_via\<close> is
  the branch over the \<^verbatim>\<open>query\<close> method of whatever adapter it was given, called with the
  object \<^verbatim>\<open>{ type, limit, offset }\<close>, and \<open>listEvents\<close> is the branch over one of the three
  adapters of the package.
\<close>

definition events_options :: "(string \<times> string) list \<Rightarrow> QueryOptions" where
  "events_options q =
     \<lparr>type_filter = events_type q, limit = Some (events_limit q),
      offset = Some (events_offset q)\<rparr>"

definition listEvents_via ::
  "(QueryOptions option \<Rightarrow> store \<Rightarrow> error + WebhookEvent list) \<Rightarrow> store \<Rightarrow> request
     \<Rightarrow> error + response \<times> store" where
  "listEvents_via adapter_query db req =
     (case adapter_query (Some (events_options (req_query req))) db of
        Inl err \<Rightarrow> Inl err
      | Inr events \<Rightarrow> Inr (sendJson 200 (EventsBody events (length events)), db))"

definition listEvents :: "adapter \<Rightarrow> store \<Rightarrow> request \<Rightarrow> error + response \<times> store" where
  "listEvents a db req = listEvents_via (query a) db req"

text \<open>The handler of \<^verbatim>\<open>createIngesterServer\<close>: one response for each request, and the store after it.\<close>

definition handleRequest ::
  "env \<Rightarrow> IngesterConfig \<Rightarrow> adapter \<Rightarrow> store \<Rightarrow> request \<Rightarrow> response \<times> store" where
  "handleRequest e config a db req =
     (let method = (case req_method req of None \<Rightarrow> ''GET'' | Some m \<Rightarrow> toUpperCase m);
          result =
            (if method = ''GET'' \<and> req_path req = ''/health'' then
               Inr (sendJson 200 (HealthBody (clock_health e) (db_type (database config))), db)
             else if method = ''GET'' \<and> req_path req = ''/events'' then listEvents a db req
             else if method = ''POST'' \<and> req_path req = ''/webhook'' then
               receiveWebhook e config a db req
             else Inr (sendJson 404 (ErrorBody ''Not found''), db))
      in (case result of
            Inl err \<Rightarrow> (sendJson 500 (ErrorBody ''Internal server error''), db)
          | Inr r \<Rightarrow> r))"

subsection \<open>Sequences of calls\<close>

text \<open>Inserting a list of events one after the other, stopping at the first raise.\<close>

fun insert_events :: "adapter \<Rightarrow> WebhookEvent list \<Rightarrow> store \<Rightarrow> error + store" where
  "insert_events a [] db = Inr db"
| "insert_events a (ev # evs) db =
     (case insert_event a ev db of
        Inl e \<Rightarrow> Inl e
      | Inr db' \<Rightarrow> insert_events a evs db')"

text \<open>The store after a call of \<open>insert_event\<close>, whether it returned or raised.\<close>

definition store_after_insert :: "adapter \<Rightarrow> WebhookEvent \<Rightarrow> store \<Rightarrow> store" where
  "store_after_insert a ev db = (case insert_event a ev db of Inl e \<Rightarrow> db | Inr db' \<Rightarrow> db')"


text \<open>
  What the \<^verbatim>\<open>UNIQUE\<close> and \<^verbatim>\<open>PRIMARY KEY\<close> constraints of \<^verbatim>\<open>createTable\<close> keep true of a table.
\<close>

definition table_ok :: "row list \<Rightarrow> bool" where
  "table_ok rows = (distinct (map row_event_id rows) \<and> distinct (map row_id rows))"




subsection \<open>The words of the query contract\<close>



subsection \<open>Inputs of the examples\<close>

definition example_config :: IngesterConfig where
  "example_config =
     \<lparr>port = 4000, secret = ''whsec'',
      database = \<lparr>db_type = ''sqlite'', url = ''events.db''\<rparr>,
      configTableName = ''veilmail_webhook_events''\<rparr>"

definition example_adapter :: adapter where
  "example_adapter =
     snd (connect ConnectOk (new_adapter SqliteAdapter ''events.db'' ''veilmail_webhook_events''))"

definition example_body :: string where
  \<open>example_body = ''{"type":"email.delivered","id":"evt_9","created_at":"not-a-date"}''\<close>

definition example_payload :: json where
  "example_payload =
     JObject (fmap_of_list
       [(''type'', JString ''email.delivered''), (''id'', JString ''evt_9''),
        (''created_at'', JString ''not-a-date'')])"

text \<open>
  A runtime that agrees with JavaScript on the texts the examples use: \<^verbatim>\<open>JSON.parse\<close> reads
  \<open>example_body\<close> as \<open>example_payload\<close>, and \<^verbatim>\<open>Date.parse('not-a-date')\<close> is \<^verbatim>\<open>NaN\<close>.
\<close>

definition example_runtime :: env where
  "example_runtime =
     \<lparr>JSON_parse = (\<lambda>s. if s = example_body then Some example_payload else None),
      Date_parse = (\<lambda>s. if s = ''1970-01-01T00:00:01.000Z'' then Some 1000 else None),
      js_String = (\<lambda>v. ''[object Object]''),
      uuid_for_id = ''0b0e7a52-0001'',
      uuid_for_event_id = ''0b0e7a52-0002'',
      clock_created_at = 1700000000000,
      clock_received_at = 1700000000001,
      clock_health = 1700000000002\<rparr>"

definition row_delivered :: row where
  "row_delivered =
     \<lparr>row_id = ''id-1'', row_event_type = ''email.delivered'', row_event_id = ''evt_1'',
      row_data = JObject fmempty, row_created_at = 2000, row_received_at = 2500\<rparr>"

definition row_bounced :: row where
  "row_bounced =
     \<lparr>row_id = ''id-2'', row_event_type = ''email.bounced'', row_event_id = ''evt_2'',
      row_data = JObject fmempty, row_created_at = 1000, row_received_at = 1500\<rparr>"

definition example_store :: store where
  "example_store = Map.empty(''veilmail_webhook_events'' \<mapsto> [row_delivered, row_bounced])"

definition example_event :: WebhookEvent where
  "example_event =
     \<lparr>ev_id = ''id-3'', event_type = ''email.delivered'', event_id = ''evt_1'',
      data = JObject fmempty, created_at = Date 3000, received_at = Date 3500\<rparr>"
















definition get_request :: "string \<Rightarrow> (string \<times> string) list \<Rightarrow> request" where
  "get_request p q =
     \<lparr>req_method = Some ''GET'', req_path = p, req_query = q, req_headers = [], req_body = []\<rparr>"

definition webhook_request :: "(string \<times> string) list \<Rightarrow> string \<Rightarrow> request" where
  "webhook_request hs b =
     \<lparr>req_method = Some ''POST'', req_path = ''/webhook'', req_query = [],
      req_headers = hs, req_body = b\<rparr>"

section \<open>Properties\<close>

subsection \<open>The digest and its hex text\<close>

lemma be_bytes_range: "b \<in> set (be_bytes w) \<Longrightarrow> 0 \<le> b \<and> b < 256"
  by (auto simp: be_bytes_def take_bit_eq_mod)

lemma sha256_range: "b \<in> set (sha256 m) \<Longrightarrow> 0 \<le> b \<and> b < 256"
  by (auto simp: sha256_def Let_def dest: be_bytes_range)

lemma hmac_range: "b \<in> set (hmac_sha256 k m) \<Longrightarrow> 0 \<le> b \<and> b < 256"
  unfolding hmac_sha256_def Let_def by (rule sha256_range)

lemma length_round_step: "length (round_step st kw) = 8"
  by (simp add: round_step_def Let_def)

lemma length_rounds: "length st = 8 \<Longrightarrow> length (foldl round_step st kws) = 8"
  by (induction kws arbitrary: st) (simp_all add: length_round_step)

lemma length_compress: "length hs = 8 \<Longrightarrow> length (compress hs blk) = 8"
  by (simp add: compress_def Let_def length_rounds)

lemma length_compress_all: "length hs = 8 \<Longrightarrow> length (foldl compress hs bs) = 8"
  by (induction bs arbitrary: hs) (simp_all add: length_compress)

lemma length_concat_be_bytes: "length (concat (map be_bytes ws)) = 4 * length ws"
  by (induction ws) (simp_all add: be_bytes_def)

lemma length_sha256: "length (sha256 m) = 32"
  by (simp add: sha256_def Let_def length_concat_be_bytes length_compress_all H256_def)

lemma length_hmac: "length (hmac_sha256 k m) = 32"
  unfolding hmac_sha256_def Let_def by (rule length_sha256)

lemma hexdigit_cases:
  "0 \<le> n \<Longrightarrow> n < 16 \<Longrightarrow> n \<in> {0,1,2,3,4,5,6,7,8,9,10,11,12,13,14,15::int}"
  by (simp; presburger)

lemma bit_cases: "b < 8 \<Longrightarrow> b \<in> {0,1,2,3,4,5,6,7::nat}"
  by (simp; presburger)

lemma unhex_hexdigit:
  assumes "0 \<le> n" "n < 16"
  shows "unhex (hexdigit n) = Some n"
  using hexdigit_cases [OF assms]
  by (elim insertE emptyE; simp add: unhex_def hexdigit_def)

lemma hexdigit_letter:
  assumes "0 \<le> n" "n < 16"
  shows "hexdigit n \<in> set ''abcdef'' \<longleftrightarrow> 10 \<le> n"
  using hexdigit_cases [OF assms]
  by (elim insertE emptyE; simp add: hexdigit_def)

text \<open>
  One flipped bit in a hex digit gives a character that is no hex digit, or a digit of
  another value, except for bit 5 of a letter, which only changes its case.
\<close>

lemma unhex_flip:
  assumes "0 \<le> n" "n < 16" "b < 8"
  shows "unhex (flip_char b (hexdigit n)) = Some n \<longleftrightarrow> b = 5 \<and> 10 \<le> n"
  using hexdigit_cases [OF assms(1,2)] bit_cases [OF assms(3)]
  by (elim insertE emptyE; simp add: hexdigit_def unhex_def)

lemma nibbles:
  "0 \<le> (x::int) \<Longrightarrow> x < 256 \<Longrightarrow>
    0 \<le> x div 16 \<and> x div 16 < 16 \<and> 0 \<le> x mod 16 \<and> x mod 16 < 16"
  by auto

lemma hi_nibble: "16 * v + x mod 16 = x \<longleftrightarrow> v = x div 16" for x v :: int
  by presburger

lemma lo_nibble: "16 * (x div 16) + v = x \<longleftrightarrow> v = x mod 16" for x v :: int
  by presburger

lemma length_digest_hex: "length (digest_hex bs) = 2 * length bs"
  by (induction bs) (simp_all add: digest_hex_def)

lemma hex_roundtrip_append:
  "\<forall>b \<in> set bs. 0 \<le> b \<and> b < 256 \<Longrightarrow>
   Buffer_from_hex (digest_hex bs @ rest) = bs @ Buffer_from_hex rest"
proof (induction bs)
  case Nil
  then show ?case by (simp add: digest_hex_def)
next
  case (Cons b bs)
  then have "0 \<le> b" "b < 256" by auto
  note nb = nibbles [OF this]
  have "unhex (hexdigit (b div 16)) = Some (b div 16)"
       "unhex (hexdigit (b mod 16)) = Some (b mod 16)"
    using nb by (simp_all add: unhex_hexdigit)
  moreover have "Buffer_from_hex (digest_hex bs @ rest) = bs @ Buffer_from_hex rest"
    using Cons by simp
  ultimately show ?case by (simp add: digest_hex_def)
qed

lemma hex_roundtrip:
  "\<forall>b \<in> set bs. 0 \<le> b \<and> b < 256 \<Longrightarrow> Buffer_from_hex (digest_hex bs) = bs"
  using hex_roundtrip_append [of bs "[]"] by simp

text \<open>On non-empty arguments the verifier compares the decoded signature with the digest.\<close>

lemma verify_iff:
  "payload \<noteq> [] \<Longrightarrow> signature \<noteq> [] \<Longrightarrow> key \<noteq> [] \<Longrightarrow>
   verifyWebhookSignature payload signature key
     \<longleftrightarrow> Buffer_from_hex signature = hmac_sha256 (utf8 key) (utf8 payload)"
  using hex_roundtrip [of "hmac_sha256 (utf8 key) (utf8 payload)"] hmac_range
  by (auto simp: verifyWebhookSignature_def Let_def timingSafeEqual_def)

lemma mutate_decode:
  assumes "\<forall>x \<in> set bs. 0 \<le> x \<and> x < 256" "i < length (digest_hex bs)" "b < 8"
  shows "Buffer_from_hex (mutate_bit i b (digest_hex bs)) = bs
           \<longleftrightarrow> b = 5 \<and> digest_hex bs ! i \<in> set ''abcdef''"
  using assms
proof (induction bs arbitrary: i)
  case Nil
  then show ?case by (simp add: digest_hex_def)
next
  case (Cons x xs)
  define hi where "hi = hexdigit (x div 16)"
  define lo where "lo = hexdigit (x mod 16)"
  have enc: "digest_hex (x # xs) = hi # lo # digest_hex xs"
    by (simp add: digest_hex_def hi_def lo_def)
  from Cons.prems have x: "0 \<le> x" "x < 256" by auto
  note nb = nibbles [OF x]
  have uhi: "unhex hi = Some (x div 16)" and ulo: "unhex lo = Some (x mod 16)"
    using nb by (simp_all add: hi_def lo_def unhex_hexdigit)
  have rt: "Buffer_from_hex (digest_hex xs) = xs"
    using Cons.prems by (simp add: hex_roundtrip)
  consider (zero) "i = 0" | (one) "i = 1" | (more) j where "i = Suc (Suc j)"
    by (cases i rule: nat.exhaust; simp) (metis One_nat_def nat.exhaust)
  then show ?case
  proof cases
    case zero
    have "Buffer_from_hex (flip_char b hi # lo # digest_hex xs) = x # xs
            \<longleftrightarrow> unhex (flip_char b hi) = Some (x div 16)"
      using ulo rt by (auto simp: hi_nibble split: option.splits)
    also have "\<dots> \<longleftrightarrow> b = 5 \<and> 10 \<le> x div 16"
      unfolding hi_def using nb Cons.prems(3) by (simp add: unhex_flip)
    also have "\<dots> \<longleftrightarrow> b = 5 \<and> hi \<in> set ''abcdef''"
      unfolding hi_def using nb hexdigit_letter [of "x div 16"] by blast
    finally show ?thesis by (simp add: enc zero mutate_bit_def)
  next
    case one
    have "Buffer_from_hex (hi # flip_char b lo # digest_hex xs) = x # xs
            \<longleftrightarrow> unhex (flip_char b lo) = Some (x mod 16)"
      using uhi rt by (auto simp: lo_nibble split: option.splits)
    also have "\<dots> \<longleftrightarrow> b = 5 \<and> 10 \<le> x mod 16"
      unfolding lo_def using nb Cons.prems(3) by (simp add: unhex_flip)
    also have "\<dots> \<longleftrightarrow> b = 5 \<and> lo \<in> set ''abcdef''"
      unfolding lo_def using nb hexdigit_letter [of "x mod 16"] by blast
    finally show ?thesis by (simp add: enc one mutate_bit_def)
  next
    case more
    with Cons.prems have j: "j < length (digest_hex xs)" by (simp add: enc)
    have "Buffer_from_hex (mutate_bit j b (digest_hex xs)) = xs
            \<longleftrightarrow> b = 5 \<and> digest_hex xs ! j \<in> set ''abcdef''"
      using Cons.IH [OF _ j Cons.prems(3)] Cons.prems(1) by simp
    then show ?thesis
      using uhi ulo by (simp add: enc more mutate_bit_def)
  qed
qed

lemma decoded_prefix:
  "n \<le> length (Buffer_from_hex s) \<Longrightarrow>
     2 * n \<le> length s \<and> list_all (\<lambda>c. unhex c \<noteq> None) (take (2 * n) s)"
proof (induction s arbitrary: n rule: Buffer_from_hex.induct)
  case (1 a b cs)
  show ?case
  proof (cases n)
    case 0
    then show ?thesis by simp
  next
    case (Suc m)
    with "1.prems" obtain x y where xy: "unhex a = Some x" "unhex b = Some y"
      by (auto split: option.splits)
    with "1.prems" Suc have "m \<le> length (Buffer_from_hex cs)" by simp
    from "1.IH" [OF xy this] xy Suc show ?thesis by simp
  qed
qed simp_all

lemma short_decode:
  assumes "\<not> begins_with_64_hex_digits s"
  shows "length (Buffer_from_hex s) < 32"
proof (rule ccontr)
  assume "\<not> length (Buffer_from_hex s) < 32"
  then have "32 \<le> length (Buffer_from_hex s)" by simp
  from decoded_prefix [OF this] assms show False
    by (simp add: begins_with_64_hex_digits_def)
qed

lemma wrong_length_rejected:
  assumes "length (Buffer_from_hex signature) \<noteq> 32"
  shows "\<not> verifyWebhookSignature payload signature key"
proof (cases "payload = [] \<or> signature = [] \<or> key = []")
  case True
  then show ?thesis by (auto simp: verifyWebhookSignature_def)
next
  case False
  from assms have "Buffer_from_hex signature \<noteq> hmac_sha256 (utf8 key) (utf8 payload)"
    using length_hmac [of "utf8 key" "utf8 payload"] by auto
  with False show ?thesis by (simp add: verify_iff)
qed

subsection \<open>A test vector\<close>

text \<open>
  The HMAC-SHA-256 of the text \<open>The quick brown fox jumps over the lazy dog\<close> under the key
  \<open>key\<close>, a published test vector, computed from the definitions above.
\<close>

lemma hmac_test_vector:
  "digest_hex (hmac_sha256 (utf8 ''key'') (utf8 ''The quick brown fox jumps over the lazy dog''))
     = ''f7bc83f430538424b13298e6aa6fb143ef4d59a14946175997479dbc2d1a3cd8''"
  by code_simp

lemma hmac_test_bytes:
  "hmac_sha256 (utf8 ''key'') (utf8 ''The quick brown fox jumps over the lazy dog'')
     = Buffer_from_hex ''f7bc83f430538424b13298e6aa6fb143ef4d59a14946175997479dbc2d1a3cd8''"
  using hex_roundtrip [of "hmac_sha256 (utf8 ''key'') (utf8 ''The quick brown fox jumps over the lazy dog'')"]
    hmac_range
  unfolding hmac_test_vector by metis

lemma upper_case_decodes_alike:
  "Buffer_from_hex ''F7bc83f430538424b13298e6aa6fb143ef4d59a14946175997479dbc2d1a3cd8''
     = Buffer_from_hex ''f7bc83f430538424b13298e6aa6fb143ef4d59a14946175997479dbc2d1a3cd8''"
  by code_simp

lemma trailing_text_dropped:
  "Buffer_from_hex ''f7bc83f430538424b13298e6aa6fb143ef4d59a14946175997479dbc2d1a3cd8zz''
     = Buffer_from_hex ''f7bc83f430538424b13298e6aa6fb143ef4d59a14946175997479dbc2d1a3cd8''"
  by code_simp

subsection \<open>C2: the verifier on its own signature and on one flipped bit\<close>

text \<open>
  Claim C2 as stated fails twice. With an empty payload the verifier returns \<open>False\<close> also
  on the correct signature. And flipping bit 5 of a hex letter of the correct signature
  only changes the case of that letter, which \<^verbatim>\<open>Buffer.from(s, 'hex')\<close> decodes to the same
  byte: the first character \<open>f\<close> of the test vector becomes \<open>F\<close> and the signature is
  still accepted.
\<close>

theorem verify_own_mac_counterexample:
  "\<not> verifyWebhookSignature [] (digest_hex (hmac_sha256 (utf8 ''key'') (utf8 []))) ''key''
   \<and> mutate_bit 0 5 (digest_hex (hmac_sha256 (utf8 ''key'')
          (utf8 ''The quick brown fox jumps over the lazy dog'')))
       = ''F7bc83f430538424b13298e6aa6fb143ef4d59a14946175997479dbc2d1a3cd8''
   \<and> verifyWebhookSignature ''The quick brown fox jumps over the lazy dog''
        ''F7bc83f430538424b13298e6aa6fb143ef4d59a14946175997479dbc2d1a3cd8'' ''key''"
proof (intro conjI)
  show "\<not> verifyWebhookSignature [] (digest_hex (hmac_sha256 (utf8 ''key'') (utf8 []))) ''key''"
    by (simp add: verifyWebhookSignature_def)
  show "mutate_bit 0 5 (digest_hex (hmac_sha256 (utf8 ''key'')
          (utf8 ''The quick brown fox jumps over the lazy dog'')))
       = ''F7bc83f430538424b13298e6aa6fb143ef4d59a14946175997479dbc2d1a3cd8''"
    unfolding hmac_test_vector by (simp add: mutate_bit_def)
  show "verifyWebhookSignature ''The quick brown fox jumps over the lazy dog''
        ''F7bc83f430538424b13298e6aa6fb143ef4d59a14946175997479dbc2d1a3cd8'' ''key''"
    by (simp add: verify_iff hmac_test_bytes upper_case_decodes_alike del: Buffer_from_hex.simps)
qed

text \<open>
  C2, amended: for every non-empty payload and every non-empty secret, the verifier
  accepts the hex text of the HMAC-SHA-256 of the payload under the secret; and for the
  signature obtained from that text by flipping one bit (bit \<open>b\<close> of the character at
  index \<open>i\<close>), it returns \<open>False\<close> unless the flip changes the case of a hex letter
  (\<open>b = 5\<close> on one of \<open>a\<close> to \<open>f\<close>), in which case it returns \<open>True\<close>.
\<close>

theorem verify_own_mac:
  assumes "payload \<noteq> []" "key \<noteq> []"
  shows "verifyWebhookSignature payload (digest_hex (hmac_sha256 (utf8 key) (utf8 payload))) key
       \<and> (\<forall>i b. i < 64 \<and> b < 8 \<longrightarrow>
            (verifyWebhookSignature payload
                (mutate_bit i b (digest_hex (hmac_sha256 (utf8 key) (utf8 payload)))) key
             \<longleftrightarrow> b = 5 \<and> digest_hex (hmac_sha256 (utf8 key) (utf8 payload)) ! i \<in> set ''abcdef''))"
proof -
  define mac where "mac = hmac_sha256 (utf8 key) (utf8 payload)"
  have rng: "\<forall>x \<in> set mac. 0 \<le> x \<and> x < 256"
    unfolding mac_def using hmac_range by blast
  have len: "length (digest_hex mac) = 64"
    by (simp add: length_digest_hex mac_def length_hmac)
  then have ne: "digest_hex mac \<noteq> []" by auto
  have ok: "verifyWebhookSignature payload (digest_hex mac) key"
    using assms ne rng by (simp add: verify_iff hex_roundtrip mac_def)
  have mut: "verifyWebhookSignature payload (mutate_bit i b (digest_hex mac)) key
       \<longleftrightarrow> b = 5 \<and> digest_hex mac ! i \<in> set ''abcdef''" if "i < 64" "b < 8" for i b
  proof -
    have "length (mutate_bit i b (digest_hex mac)) = 64"
      by (simp add: mutate_bit_def len)
    then have "mutate_bit i b (digest_hex mac) \<noteq> []" by auto
    then have "verifyWebhookSignature payload (mutate_bit i b (digest_hex mac)) key
       \<longleftrightarrow> Buffer_from_hex (mutate_bit i b (digest_hex mac)) = mac"
      using assms by (simp add: verify_iff mac_def)
    also have "\<dots> \<longleftrightarrow> b = 5 \<and> digest_hex mac ! i \<in> set ''abcdef''"
      using mutate_decode [OF rng _ that(2), of i] that(1) len by simp
    finally show ?thesis .
  qed
  show ?thesis using ok mut unfolding mac_def by blast
qed

theorem verify_own_mac_witness:
  "''a'' \<noteq> [] \<and> ''k'' \<noteq> []
   \<and> verifyWebhookSignature ''a'' (digest_hex (hmac_sha256 (utf8 ''k'') (utf8 ''a''))) ''k''
   \<and> (verifyWebhookSignature ''a''
         (mutate_bit 3 0 (digest_hex (hmac_sha256 (utf8 ''k'') (utf8 ''a'')))) ''k''
       \<longleftrightarrow> (0::nat) = 5 \<and> digest_hex (hmac_sha256 (utf8 ''k'') (utf8 ''a'')) ! 3 \<in> set ''abcdef'')"
proof -
  have h: "''a'' \<noteq> []" "''k'' \<noteq> []" by simp_all
  have b: "(3::nat) < 64 \<and> (0::nat) < 8" by simp
  from verify_own_mac [OF h] b show ?thesis using h by blast
qed

subsection \<open>C3: when the verifier returns \<open>False\<close>\<close>

text \<open>
  Claim C3 as stated fails for a signature that is not a valid hex string: the decoder
  stops at the first pair that is not hex and keeps what it has read, so the correct 64
  digits followed by \<open>zz\<close> are accepted.
\<close>

theorem verify_rejects_counterexample:
  "\<not> valid_hex ''f7bc83f430538424b13298e6aa6fb143ef4d59a14946175997479dbc2d1a3cd8zz''
   \<and> verifyWebhookSignature ''The quick brown fox jumps over the lazy dog''
        ''f7bc83f430538424b13298e6aa6fb143ef4d59a14946175997479dbc2d1a3cd8zz'' ''key''"
proof
  show "\<not> valid_hex ''f7bc83f430538424b13298e6aa6fb143ef4d59a14946175997479dbc2d1a3cd8zz''"
    by (simp add: valid_hex_def unhex_def)
  show "verifyWebhookSignature ''The quick brown fox jumps over the lazy dog''
        ''f7bc83f430538424b13298e6aa6fb143ef4d59a14946175997479dbc2d1a3cd8zz'' ''key''"
    by (simp add: verify_iff hmac_test_bytes trailing_text_dropped del: Buffer_from_hex.simps)
qed

text \<open>
  C3, amended: the verifier returns \<open>False\<close>, and being a total function of its three
  arguments it never raises, whenever the payload is empty, the signature is empty, the
  secret is empty, the signature does not begin with 64 hex digits, or the byte length of
  the decoded signature differs from the byte length of the expected digest.
\<close>

theorem verify_rejects:
  assumes "payload = [] \<or> signature = [] \<or> key = []
           \<or> \<not> begins_with_64_hex_digits signature
           \<or> length (Buffer_from_hex signature)
                \<noteq> length (Buffer_from_hex (digest_hex (hmac_sha256 (utf8 key) (utf8 payload))))"
  shows "verifyWebhookSignature payload signature key = False"
proof (cases "payload = [] \<or> signature = [] \<or> key = []")
  case True
  then show ?thesis by (auto simp: verifyWebhookSignature_def)
next
  case False
  have dec: "Buffer_from_hex (digest_hex (hmac_sha256 (utf8 key) (utf8 payload)))
               = hmac_sha256 (utf8 key) (utf8 payload)"
    using hmac_range by (simp add: hex_roundtrip)
  from False assms have "length (Buffer_from_hex signature) \<noteq> 32"
    using short_decode [of signature] by (auto simp: dec length_hmac)
  then show ?thesis using wrong_length_rejected by simp
qed

theorem verify_rejects_witness:
  "(''a'' = [] \<or> ''zz'' = [] \<or> ''k'' = [] \<or> \<not> begins_with_64_hex_digits ''zz''
      \<or> length (Buffer_from_hex ''zz'')
           \<noteq> length (Buffer_from_hex (digest_hex (hmac_sha256 (utf8 ''k'') (utf8 ''a'')))))
   \<and> verifyWebhookSignature ''a'' ''zz'' ''k'' = False"
proof -
  have h: "\<not> begins_with_64_hex_digits ''zz''"
    by (simp add: begins_with_64_hex_digits_def)
  then show ?thesis
    using verify_rejects [of "''a''" "''zz''" "''k''"] by blast
qed

subsection \<open>Evaluating the examples\<close>

lemmas parse_defs = events_limit_def events_offset_def events_type_def searchParams_has_def
  searchParams_get_def parseInt_def trim_start.simps white_space_def isDigit_def decimal_def
  or_default_def

lemma example_adapter_simps:
  "pool example_adapter = Some (Handle ''events.db'')"
  "kind example_adapter = SqliteAdapter"
  "tableName example_adapter = ''veilmail_webhook_events''"
  by (simp_all add: example_adapter_def connect_def new_adapter_def)

subsection \<open>C7: the two unauthorized responses\<close>

lemma invalid_example: "\<not> verifyWebhookSignature b ''00'' k"
  by (rule wrong_length_rejected) (simp add: unhex_def)

text \<open>
  Claim C7 as stated fails: both requests are answered with status 401, but the two
  bodies differ, and each names the check that failed. (Here the header is absent in the
  first request and holds the non-empty text \<open>00\<close> in the second.)
\<close>

theorem unauthorized_counterexample:
  "handleRequest example_runtime example_config example_adapter example_store
       (webhook_request [] example_body)
     = (sendJson 401 (ErrorBody ''Missing x-veilmail-signature header''), example_store)
   \<and> handleRequest example_runtime example_config example_adapter example_store
       (webhook_request [(''x-veilmail-signature'', ''00'')] example_body)
     = (sendJson 401 (ErrorBody ''Invalid webhook signature''), example_store)
   \<and> ErrorBody ''Missing x-veilmail-signature header'' \<noteq> ErrorBody ''Invalid webhook signature''"
  by (simp add: handleRequest_def webhook_request_def toUpperCase_def receiveWebhook_def
      invalid_example)

lemma post_webhook:
  assumes "req_method req = Some m" "toUpperCase m = ''POST''" "req_path req = ''/webhook''"
  shows "handleRequest e config a db req =
           (case receiveWebhook e config a db req of
              Inl err \<Rightarrow> (sendJson 500 (ErrorBody ''Internal server error''), db)
            | Inr r \<Rightarrow> r)"
  using assms by (simp add: handleRequest_def)

text \<open>
  C7, amended: for every pair of \<^verbatim>\<open>POST /webhook\<close> requests, one whose
  \<^verbatim>\<open>x-veilmail-signature\<close> header is absent or has the empty value, and one whose header
  has a non-empty value that fails verification, the router answers both with status
  401 and leaves the store as it is; the body is
  \<^verbatim>\<open>{error: 'Missing x-veilmail-signature header'}\<close> for the first and
  \<^verbatim>\<open>{error: 'Invalid webhook signature'}\<close> for the second, so the body tells which of the
  two checks failed. (The empty value is answered as the absent header is, although it
  is a signature that fails verification.)
\<close>

theorem unauthorized_responses:
  assumes "req_method r1 = Some m1" "toUpperCase m1 = ''POST''" "req_path r1 = ''/webhook''"
      and "req_method r2 = Some m2" "toUpperCase m2 = ''POST''" "req_path r2 = ''/webhook''"
      and "map_of (req_headers r1) ''x-veilmail-signature'' = None
           \<or> map_of (req_headers r1) ''x-veilmail-signature'' = Some []"
      and "map_of (req_headers r2) ''x-veilmail-signature'' = Some signature"
      and "signature \<noteq> []"
      and "\<not> verifyWebhookSignature (req_body r2) signature (secret config)"
  shows "handleRequest e config a db r1
           = (sendJson 401 (ErrorBody ''Missing x-veilmail-signature header''), db)
       \<and> handleRequest e config a db r2
           = (sendJson 401 (ErrorBody ''Invalid webhook signature''), db)"
  using assms by (auto simp: post_webhook receiveWebhook_def)

theorem unauthorized_responses_witness:
  "handleRequest example_runtime example_config example_adapter example_store
       (webhook_request [(''x-veilmail-signature'', [])] example_body)
     = (sendJson 401 (ErrorBody ''Missing x-veilmail-signature header''), example_store)
   \<and> handleRequest example_runtime example_config example_adapter example_store
       (webhook_request [(''x-veilmail-signature'', ''00'')] example_body)
     = (sendJson 401 (ErrorBody ''Invalid webhook signature''), example_store)"
  by (rule unauthorized_responses [where ?m1.0 = "''POST''" and ?m2.0 = "''POST''" and signature = "''00''"])
     (simp_all add: webhook_request_def toUpperCase_def invalid_example)

subsection \<open>C5: \<open>limit\<close> and \<open>offset\<close> of \<^verbatim>\<open>GET /events\<close>\<close>




lemma events_limit_range: "1 \<le> events_limit q \<and> events_limit q \<le> 1000"
  by (simp add: events_limit_def)


text \<open>
  C5 (the router clamps \<open>limit\<close> into 1 to 1000, and \<^verbatim>\<open>limit=0\<close> is handled as
  \<^verbatim>\<open>limit=1\<close>): the code at the input \<^verbatim>\<open>GET /events?limit=0\<close>. The parsed 0 is falsy, so
  \<^verbatim>\<open>parseInt(...) || 50\<close> replaces it by 50 before \<^verbatim>\<open>Math.max(..., 1)\<close> can raise it to 1: the
  request is handled as \<^verbatim>\<open>limit=50\<close> and returns both stored events, where \<^verbatim>\<open>limit=1\<close>
  returns one. Every other integer below 1 is clamped to 1.
\<close>

theorem limit_zero_is_default:
  "events_limit [(''limit'', ''0'')] = 50
   \<and> events_limit [(''limit'', ''1'')] = 1
   \<and> events_limit [(''limit'', ''-1'')] = 1
   \<and> handleRequest example_runtime example_config example_adapter example_store
         (get_request ''/events'' [(''limit'', ''0'')])
       = (sendJson 200 (EventsBody [row_to_event row_delivered, row_to_event row_bounced] 2),
          example_store)
   \<and> handleRequest example_runtime example_config example_adapter example_store
         (get_request ''/events'' [(''limit'', ''1'')])
       = (sendJson 200 (EventsBody [row_to_event row_delivered] 1), example_store)"
  by (simp add: handleRequest_def get_request_def toUpperCase_def listEvents_def
      listEvents_via_def events_options_def parse_defs query_def select_params_def
      rows_to_events_def reads_data_def ensureConnected_def
      example_adapter_simps exec_select_def example_store_def limit_offset_def int64_def
      order_by_created_at_desc_def iso_text_key_def descending_def row_delivered_def
      row_bounced_def Let_def numeral_2_eq_2)

subsection \<open>C8: the default table name\<close>

text \<open>
  Claim C8 as stated fails: the default of the parameter \<open>tableName\<close> of \<open>createAdapter\<close>
  is \<open>veilmail_webhook_events\<close>, and \<open>createTable\<close> on an empty store makes a table of
  that name and none named \<open>webhook_events\<close>.
\<close>

theorem default_table_name_counterexample:
  "createAdapter \<lparr>db_type = ''sqlite'', url = ''events.db''\<rparr> None
     = Inr (new_adapter SqliteAdapter ''events.db'' ''veilmail_webhook_events'')
   \<and> tableName (new_adapter SqliteAdapter ''events.db'' ''veilmail_webhook_events'')
       \<noteq> ''webhook_events''
   \<and> createTable (snd (connect ConnectOk
         (new_adapter SqliteAdapter ''events.db'' ''veilmail_webhook_events''))) Map.empty
       = Inr (Map.empty(''veilmail_webhook_events'' \<mapsto> []))
   \<and> (Map.empty(''veilmail_webhook_events'' \<mapsto> ([]::row list))) ''webhook_events'' = None"
  by (simp add: createAdapter_def new_adapter_def createTable_def connect_def
      ensureConnected_def exec_create_table_def)

lemma createAdapter_tableName:
  "createAdapter config tn = Inr a \<Longrightarrow>
     tableName a = (case tn of None \<Rightarrow> ''veilmail_webhook_events'' | Some t \<Rightarrow> t)"
  by (auto simp: createAdapter_def new_adapter_def Let_def split: if_splits)

lemma connect_tableName: "tableName (snd (connect outcome a)) = tableName a"
  by (cases outcome) (simp_all add: connect_def)

lemma createTable_table:
  "createTable a db = Inr db' \<Longrightarrow>
     db' (tableName a) \<noteq> None \<and> (\<forall>t. t \<noteq> tableName a \<longrightarrow> db' t = db t)"
  by (auto simp: createTable_def exec_create_table_def split: option.splits)

lemma insert_event_table:
  "insert_event a ev db = Inr db' \<Longrightarrow> \<forall>t. t \<noteq> tableName a \<longrightarrow> db' t = db t"
  by (cases "kind a")
     (auto simp: insert_event_def exec_insert_def split: option.splits sum.splits if_splits)

lemma query_table:
  "db1 (tableName a) = db2 (tableName a) \<Longrightarrow> query a opts db1 = query a opts db2"
  by (simp add: query_def select_params_def exec_select_def Let_def split: option.splits)

text \<open>
  C8, amended: when an adapter is made by \<open>createAdapter\<close> without a table name, the
  table it ensures and operates on is named \<open>veilmail_webhook_events\<close>: \<open>createTable\<close>
  makes sure that table exists and changes no other, \<open>insert\<close> changes no other table, and
  the result of \<open>query\<close> depends on no other table.
\<close>

theorem default_table_name:
  assumes "createAdapter config None = Inr a"
  shows "tableName a = ''veilmail_webhook_events''
       \<and> (\<forall>outcome db db'. createTable (snd (connect outcome a)) db = Inr db' \<longrightarrow>
             db' ''veilmail_webhook_events'' \<noteq> None
             \<and> (\<forall>t. t \<noteq> ''veilmail_webhook_events'' \<longrightarrow> db' t = db t))
       \<and> (\<forall>outcome ev db db'. insert_event (snd (connect outcome a)) ev db = Inr db' \<longrightarrow>
             (\<forall>t. t \<noteq> ''veilmail_webhook_events'' \<longrightarrow> db' t = db t))
       \<and> (\<forall>outcome opts db1 db2.
             db1 ''veilmail_webhook_events'' = db2 ''veilmail_webhook_events'' \<longrightarrow>
             query (snd (connect outcome a)) opts db1 = query (snd (connect outcome a)) opts db2)"
proof -
  have tn: "tableName a = ''veilmail_webhook_events''"
    using createAdapter_tableName [OF assms] by simp
  then have c: "tableName (snd (connect outcome a)) = ''veilmail_webhook_events''" for outcome
    by (simp add: connect_tableName)
  show ?thesis
  proof (intro conjI allI impI)
    show "tableName a = ''veilmail_webhook_events''" by (rule tn)
  next
    fix outcome db db' assume "createTable (snd (connect outcome a)) db = Inr db'"
    from createTable_table [OF this] show "db' ''veilmail_webhook_events'' \<noteq> None"
      by (simp add: c)
  next
    fix outcome db db' t
    assume "createTable (snd (connect outcome a)) db = Inr db'" "t \<noteq> ''veilmail_webhook_events''"
    with createTable_table [of "snd (connect outcome a)" db db'] show "db' t = db t"
      by (simp add: c)
  next
    fix outcome ev db db' t
    assume "insert_event (snd (connect outcome a)) ev db = Inr db'" "t \<noteq> ''veilmail_webhook_events''"
    with insert_event_table [of "snd (connect outcome a)" ev db db'] show "db' t = db t"
      by (simp add: c)
  next
    fix outcome opts and db1 db2 :: store
    assume "db1 ''veilmail_webhook_events'' = db2 ''veilmail_webhook_events''"
    then show "query (snd (connect outcome a)) opts db1 = query (snd (connect outcome a)) opts db2"
      by (intro query_table) (simp add: c)
  qed
qed

theorem default_table_name_witness:
  "createAdapter \<lparr>db_type = ''postgres'', url = ''postgres://db''\<rparr> None
     = Inr (new_adapter PostgresAdapter ''postgres://db'' ''veilmail_webhook_events'')
   \<and> tableName (new_adapter PostgresAdapter ''postgres://db'' ''veilmail_webhook_events'')
       = ''veilmail_webhook_events''"
proof -
  have h: "createAdapter \<lparr>db_type = ''postgres'', url = ''postgres://db''\<rparr> None
     = Inr (new_adapter PostgresAdapter ''postgres://db'' ''veilmail_webhook_events'')"
    by (simp add: createAdapter_def)
  from default_table_name [OF h] h show ?thesis by blast
qed

subsection \<open>C10: an empty \<open>type\<close> parameter\<close>









lemma int64_events_limit: "int64 (events_limit q)"
  using events_limit_range [of q] by (simp add: int64_def)




subsection \<open>C6: \<open>created_at\<close> of an ingested event\<close>

text \<open>
  What the object literal gives as \<open>created_at\<close>: the clock when the field is absent or
  falsy, the parsed instant for a non-empty string that \<^verbatim>\<open>Date.parse\<close> reads, and an
  invalid date for a non-empty string that it does not read.
\<close>

lemma build_event_created_at:
  assumes "payload \<noteq> JNull"
  shows "\<exists>ev. build_event e payload = Inr ev
          \<and> created_at ev =
              (case get_prop payload ''created_at'' of
                 None \<Rightarrow> Date (clock_created_at e)
               | Some v \<Rightarrow> if truthy v then new_Date e v else Date (clock_created_at e))"
  using assms by (simp add: build_event_def)

lemma created_at_absent:
  "payload \<noteq> JNull \<Longrightarrow> get_prop payload ''created_at'' = None \<Longrightarrow>
   \<exists>ev. build_event e payload = Inr ev \<and> created_at ev = Date (clock_created_at e)"
  by (simp add: build_event_def)

lemma created_at_parsed:
  "get_prop payload ''created_at'' = Some (JString s) \<Longrightarrow> s \<noteq> [] \<Longrightarrow> Date_parse e s = Some t \<Longrightarrow>
   \<exists>ev. build_event e payload = Inr ev \<and> created_at ev = Date t"
  by (auto simp: build_event_def truthy_def new_Date_def get_prop_def)

lemma created_at_unparseable:
  "get_prop payload ''created_at'' = Some (JString s) \<Longrightarrow> s \<noteq> [] \<Longrightarrow> Date_parse e s = None \<Longrightarrow>
   \<exists>ev. build_event e payload = Inr ev \<and> created_at ev = InvalidDate"
  by (auto simp: build_event_def truthy_def new_Date_def get_prop_def)

lemma insert_invalid_date:
  "created_at ev = InvalidDate \<Longrightarrow> \<exists>err. insert_event a ev db = Inl err"
  by (cases "pool a") (simp_all add: insert_event_def ensureConnected_def insert_params_def toISOString_def)

text \<open>
  The same for every runtime, adapter and store: a verified request whose payload has a
  non-empty string \<open>created_at\<close> that \<^verbatim>\<open>Date.parse\<close> cannot read is answered with 500 and
  leaves the store as it was. (With an adapter that is not connected the raise is the
  one of \<open>ensureConnected\<close>.)
\<close>

lemma unparseable_created_at_is_rejected:
  assumes "req_method req = Some m" "toUpperCase m = ''POST''" "req_path req = ''/webhook''"
      and "map_of (req_headers req) ''x-veilmail-signature'' = Some signature"
      and "verifyWebhookSignature (req_body req) signature (secret config)"
      and "JSON_parse e (req_body req) = Some payload"
      and "get_prop payload ''created_at'' = Some (JString s)"
      and "s \<noteq> []" "Date_parse e s = None"
  shows "handleRequest e config a db req
           = (sendJson 500 (ErrorBody ''Internal server error''), db)"
proof -
  from assms(5) have sig: "signature \<noteq> []"
    by (auto simp: verifyWebhookSignature_def)
  obtain ev where ev: "build_event e payload = Inr ev" "created_at ev = InvalidDate"
    using created_at_unparseable [OF assms(7,8,9)] by blast
  obtain err where err: "insert_event a ev db = Inl err"
    using insert_invalid_date [OF ev(2)] by blast
  have "receiveWebhook e config a db req = Inl err"
    using assms(4,5,6) sig ev(1) err by (simp add: receiveWebhook_def)
  then show ?thesis
    using assms(1,2,3) by (simp add: post_webhook)
qed

lemma example_signature_ok:
  "verifyWebhookSignature example_body
     (digest_hex (hmac_sha256 (utf8 (secret example_config)) (utf8 example_body)))
     (secret example_config)"
proof -
  have "digest_hex (hmac_sha256 (utf8 (secret example_config)) (utf8 example_body)) \<noteq> []"
    using length_digest_hex [of "hmac_sha256 (utf8 (secret example_config)) (utf8 example_body)"]
    by (auto simp: length_hmac)
  moreover have "example_body \<noteq> []" "secret example_config \<noteq> []"
    by (simp_all add: example_body_def example_config_def)
  ultimately show ?thesis
    using hmac_range by (simp add: verify_iff hex_roundtrip)
qed

text \<open>
  C6 (the stored \<open>created_at\<close> is the parsed payload field when it is present and
  parseable, and the ingest time in every other case): the code at a correctly signed
  \<^verbatim>\<open>POST /webhook\<close> whose body has \<^verbatim>\<open>"created_at":"not-a-date"\<close>. The field is present, so
  the event gets \<^verbatim>\<open>new Date('not-a-date')\<close>, an invalid date, and not the ingest time;
  \<^verbatim>\<open>toISOString()\<close> in \<open>insert\<close> raises on it, the handler answers 500, and nothing is
  stored.
\<close>

theorem unparseable_created_at_example:
  "handleRequest example_runtime example_config example_adapter example_store
     (webhook_request
        [(''x-veilmail-signature'',
          digest_hex (hmac_sha256 (utf8 (secret example_config)) (utf8 example_body)))]
        example_body)
   = (sendJson 500 (ErrorBody ''Internal server error''), example_store)"
  by (rule unparseable_created_at_is_rejected
        [where m = "''POST''" and s = "''not-a-date''" and payload = example_payload
           and signature = "digest_hex (hmac_sha256 (utf8 (secret example_config)) (utf8 example_body))"])
     (simp_all add: webhook_request_def toUpperCase_def example_signature_ok example_runtime_def
        example_payload_def get_prop_def)

subsection \<open>C9: operations on an adapter that is not connected\<close>

lemma createTable_uninitialized:
  "createTable a db = Inl (NotConnected (kind a)) \<longleftrightarrow> pool a = None"
  by (cases "pool a") (simp_all add: createTable_def ensureConnected_def)

lemma exec_insert_not_uninitialized: "exec_insert k t r db \<noteq> Inl (NotConnected k')"
  by (cases k) (simp_all add: exec_insert_def split: option.splits)

lemma insert_event_uninitialized:
  "insert_event a ev db = Inl (NotConnected (kind a)) \<longleftrightarrow> pool a = None"
proof (cases "pool a")
  case None
  then show ?thesis by (simp add: insert_event_def ensureConnected_def)
next
  case (Some h)
  then show ?thesis
    by (cases "created_at ev"; cases "received_at ev")
       (simp_all add: insert_event_def ensureConnected_def insert_params_def toISOString_def
          exec_insert_not_uninitialized)
qed

lemma limit_offset_not_uninitialized: "limit_offset k l ofs rows \<noteq> Inl (NotConnected k')"
  by (cases k) (simp_all add: limit_offset_def)

lemma exec_select_not_uninitialized: "exec_select k t c l ofs db \<noteq> Inl (NotConnected k')"
  by (simp add: exec_select_def Let_def limit_offset_not_uninitialized split: option.splits)

lemma rows_to_events_not_uninitialized: "rows_to_events k rows \<noteq> Inl (NotConnected k')"
  by (simp add: rows_to_events_def)

lemma query_uninitialized:
  "query a opts db = Inl (NotConnected (kind a)) \<longleftrightarrow> pool a = None"
proof (cases "pool a")
  case None
  then show ?thesis by (simp add: query_def select_params_def ensureConnected_def)
next
  case (Some h)
  then show ?thesis
    using exec_select_not_uninitialized rows_to_events_not_uninitialized
    by (auto simp: query_def select_params_def ensureConnected_def Let_def split: sum.splits)
qed

text \<open>
  Claim C9 as stated fails for calls made before \<open>connect\<close> has succeeded: \<open>connect\<close>
  assigns the pool to its field before it checks the connection, so after a \<open>connect\<close>
  that raised at that check the adapter holds a pool, \<open>ensureConnected\<close> passes, and
  the three operations hand their statement to the driver instead of failing with the
  uninitialized-adapter error.
\<close>

theorem uninitialized_counterexample:
  "fst (connect CheckFails (new_adapter PostgresAdapter ''postgres://db'' ''t''))
     = Some (EngineError ''cannot connect'')
   \<and> createTable (snd (connect CheckFails (new_adapter PostgresAdapter ''postgres://db'' ''t'')))
        Map.empty
     \<noteq> Inl (NotConnected PostgresAdapter)
   \<and> query (snd (connect CheckFails (new_adapter PostgresAdapter ''postgres://db'' ''t'')))
        None Map.empty
     \<noteq> Inl (NotConnected PostgresAdapter)
   \<and> insert_event (snd (connect CheckFails (new_adapter PostgresAdapter ''postgres://db'' ''t'')))
        example_event Map.empty
     \<noteq> Inl (NotConnected PostgresAdapter)"
  by (simp add: connect_def new_adapter_def createTable_def ensureConnected_def
      exec_create_table_def query_def select_params_def exec_select_def insert_event_def insert_params_def
      toISOString_def example_event_def exec_insert_def)

text \<open>
  C9, amended: for every adapter variant, \<open>createTable\<close>, \<open>insert\<close> and \<open>query\<close> fail with
  the uninitialized-adapter error exactly when the adapter holds no pool or handle. A
  new adapter holds none; a \<open>connect\<close> that fails while importing the driver or
  constructing the pool changes nothing; a \<open>connect\<close> that succeeds, or that fails only at
  its connection check, leaves a pool in place; a \<open>close\<close> whose driver call returns does
  not raise and leaves none. Calling \<open>close\<close> on an adapter that holds none (a second
  \<open>close\<close>, or a never-connected adapter) is a no-op that does not raise.
\<close>

theorem uninitialized_operations:
  "(createTable a db = Inl (NotConnected (kind a)) \<longleftrightarrow> pool a = None)
   \<and> (insert_event a ev db = Inl (NotConnected (kind a)) \<longleftrightarrow> pool a = None)
   \<and> (query a opts db = Inl (NotConnected (kind a)) \<longleftrightarrow> pool a = None)
   \<and> pool (new_adapter k cs tn) = None
   \<and> pool (snd (connect ImportFails a)) = pool a
   \<and> pool (snd (connect ConstructorFails a)) = pool a
   \<and> pool (snd (connect CheckFails a)) \<noteq> None
   \<and> pool (snd (connect ConnectOk a)) \<noteq> None
   \<and> close True a = (None, a\<lparr>pool := None\<rparr>)
   \<and> (pool a = None \<longrightarrow> close end_ok a = (None, a))"
  by (simp add: createTable_uninitialized insert_event_uninitialized query_uninitialized
      new_adapter_def connect_def close_def split: option.splits)

theorem uninitialized_operations_witness:
  "pool (new_adapter SqliteAdapter ''events.db'' ''t'') = None
   \<and> createTable (new_adapter SqliteAdapter ''events.db'' ''t'') Map.empty
       = Inl (NotConnected SqliteAdapter)
   \<and> close False (new_adapter SqliteAdapter ''events.db'' ''t'')
       = (None, new_adapter SqliteAdapter ''events.db'' ''t'')"
proof -
  have k: "kind (new_adapter SqliteAdapter ''events.db'' ''t'') = SqliteAdapter"
    by (simp add: new_adapter_def)
  from uninitialized_operations
    [of "new_adapter SqliteAdapter ''events.db'' ''t''" Map.empty _ _ SqliteAdapter "''events.db''" "''t''" False]
  show ?thesis unfolding k by blast
qed

subsection \<open>C1: \<open>insert\<close> is idempotent on \<open>event_id\<close>\<close>





lemma insert_event_connected:
  "pool a \<noteq> None \<Longrightarrow> insert_params ev = Inr r \<Longrightarrow>
   insert_event a ev db = exec_insert (kind a) (tableName a) r db"
  by (auto simp: insert_event_def ensureConnected_def)




lemma no_conflict_new:
  "\<not> event_id_conflict k r rows \<Longrightarrow> row_event_id r \<notin> set (map row_event_id rows)"
  "\<not> pk_conflict k r rows \<Longrightarrow> row_id r \<notin> set (map row_id rows)"
  by (auto simp: event_id_conflict_def pk_conflict_def)

lemma exec_insert_cases:
  assumes "db t = Some rows"
  shows "exec_insert k t r db = Inr db
       \<or> (\<exists>m. exec_insert k t r db = Inl (EngineError m))
       \<or> (exec_insert k t r db = Inr (db(t \<mapsto> rows @ [r]))
            \<and> \<not> event_id_conflict k r rows \<and> \<not> pk_conflict k r rows)"
  using assms by (cases k) (auto simp: exec_insert_def)


lemma table_ok_append:
  "table_ok rows \<Longrightarrow> \<not> event_id_conflict k r rows \<Longrightarrow> \<not> pk_conflict k r rows \<Longrightarrow>
   table_ok (rows @ [r])"
  using no_conflict_new [of k r rows] by (simp add: table_ok_def)


lemma store_after_insert_cases:
  assumes "db (tableName a) = Some rows" "table_ok rows"
  shows "\<exists>rows'. store_after_insert a ev db (tableName a) = Some rows' \<and> table_ok rows'"
proof (cases "insert_event a ev db")
  case (Inl e)
  with assms show ?thesis by (simp add: store_after_insert_def)
next
  case (Inr db')
  then obtain r where r: "insert_params ev = Inr r" and c: "pool a \<noteq> None"
    by (auto simp: insert_event_def ensureConnected_def split: if_splits sum.splits)
  with Inr have e: "exec_insert (kind a) (tableName a) r db = Inr db'"
    by (simp add: insert_event_connected)
  from exec_insert_cases [where db = db and t = "tableName a" and rows = rows and k = "kind a" and r = r]
    assms(1) e
  have "db' = db \<or> (db' = db(tableName a \<mapsto> rows @ [r])
                      \<and> \<not> event_id_conflict (kind a) r rows \<and> \<not> pk_conflict (kind a) r rows)"
    by auto
  with assms Inr show ?thesis
    by (auto simp: store_after_insert_def table_ok_append)
qed

text \<open>
  The states a table can be in: \<open>createTable\<close> makes it empty or leaves it as it is, and
  every \<open>insert\<close> keeps the two constraints.
\<close>

lemma createTable_table_ok:
  assumes "createTable a db = Inr db'"
      and "\<And>rows. db (tableName a) = Some rows \<Longrightarrow> table_ok rows"
  shows "\<exists>rows. db' (tableName a) = Some rows \<and> table_ok rows"
proof (cases "db (tableName a)")
  case None
  with assms(1) have "db' (tableName a) = Some []"
    by (auto simp: createTable_def exec_create_table_def split: option.splits)
  then show ?thesis by (simp add: table_ok_def)
next
  case (Some rows)
  with assms(1) have "db' = db"
    by (auto simp: createTable_def exec_create_table_def split: option.splits)
  with Some assms(2) show ?thesis by simp
qed

lemma insert_events_table_ok:
  "db (tableName a) = Some rows \<Longrightarrow> table_ok rows \<Longrightarrow> insert_events a evs db = Inr db' \<Longrightarrow>
   \<exists>rows'. db' (tableName a) = Some rows' \<and> table_ok rows'"
proof (induction evs arbitrary: db rows)
  case Nil
  then show ?case by simp
next
  case (Cons ev evs)
  then obtain db1 where db1: "insert_event a ev db = Inr db1" "insert_events a evs db1 = Inr db'"
    by (auto split: sum.splits)
  from store_after_insert_cases [where a = a and db = db and rows = rows and ev = ev] Cons.prems(1,2) db1(1)
  obtain rows1 where "db1 (tableName a) = Some rows1" "table_ok rows1"
    by (auto simp: store_after_insert_def)
  then show ?case using Cons.IH db1(2) by blast
qed




subsection \<open>C4: filter, order and page of \<open>query\<close>\<close>






lemma query_no_options:
  "query a None db = query a (Some \<lparr>type_filter = None, limit = None, offset = None\<rparr>) db"
  by (cases "pool a") (simp_all add: query_def select_params_def ensureConnected_def)












end
